theory Spec2Isabelle
  imports Complex_Main
begin

section \<open>Data model\<close>

text \<open>
  The worker is a Python program. Its state lives in two objects, \<open>TradingEngine\<close>
  (pump_trading.py) and \<open>WorkerApp\<close> (worker_app.py); both are modelled as records
  that every method takes and returns. A Python exception is a value of \<open>exn\<close>, and a
  method that may raise returns \<open>exn + 'a\<close> (\<open>Inl\<close> the exception) next to the state
  it leaves behind, since assignments made before a raise stay in effect.

  Python floats are modelled as reals. The statements below compare amounts and add or
  scale them; they are exact for finite floats as far as the comparisons go, and the
  rounding of \<open>+\<close> and \<open>*\<close> is not modelled. The float literal \<open>1.1\<close> is the real 11/10.
  Python \<open>str\<close> and \<open>bytes\<close> are both lists of 8-bit characters.
\<close>

type_synonym str = string
type_synonym bytes = string
type_synonym keypair = bytes

text \<open>The fields of \<open>WorkerConfig\<close> (config.py) that the modelled methods read.\<close>

record config =
  encryption_enabled :: bool
  mock_trading :: bool
  cfg_max_slippage :: real
  cfg_trade_amount_sol :: real
  max_trade_size_sol :: real
  min_trade_size_sol :: real
  daily_trade_limit_sol :: real
  retry_delay :: real
  backoff_factor :: real

text \<open>
  Exceptions, one constructor per raise site. In the source all of them are
  \<open>ValueError\<close>, \<open>RuntimeError\<close> or library errors, told apart by their message only.
\<close>

datatype exn =
    No_Token_Address
  | Wallet_Not_Initialized
  | Trade_Too_Large real real
  | Trade_Too_Small real real
  | Daily_Limit_Exceeded real real
  | Insufficient_Funds real real
  | Transaction_Failed str
  | Attribute_Error
  | Engine_Not_Initialized
  | Websocket_Closed
  | Connect_Failed
  | Send_Failed
  | Json_Error
  | Key_Error
  | Bad_Encrypted_Format
  | Encrypt_Failed
  | Decrypt_Failed
  | Key_Exchange_Failed
  | Encryption_Init_Failed
  | Encryption_Not_Initialized
  | Keypair_Error

text \<open>
  A \<open>pump_command\<close> dictionary after JSON decoding; \<open>None\<close> is an absent key.
\<close>

record command =
  cmd_token_address :: "str option"
  cmd_amount_sol :: "real option"
  cmd_max_slippage :: "real option"
  cmd_command_id :: "str option"

text \<open>
  \<open>TradeResult\<close>. The fields \<open>price_impact\<close>, \<open>gas_used\<close> (never set) and
  \<open>timestamp\<close> (wall clock) are left out.
\<close>

record trade_result =
  success :: bool
  transaction_id :: "str option"
  error_message :: "exn option"
  res_token_address :: "str option"
  res_amount_sol :: "real option"
  execution_time_ms :: "int option"

record trade_stats =
  total_trades :: nat
  successful_trades :: nat
  failed_trades :: nat
  total_volume_sol :: real
  average_execution_time :: real

text \<open>
  Requests made to the blockchain gateway, in the order they are issued. The list is a
  ghost field of the engine: the source keeps no such record.
\<close>

datatype gateway_call = Balance_Query | Real_Trade str real | Mock_Trade str real

record engine =
  stats :: trade_stats
  trading_keypair :: "keypair option"
  max_slippage :: real
  trade_amount_sol :: real
  daily_volume_limit :: real
  daily_volume_used :: real
  last_reset_day :: int
  gateway_calls :: "gateway_call list"

text \<open>
  What the outside world answers while one message is processed: the UTC date (as a day
  number), the gateway's balance reply in lamports (\<open>None\<close> when the query raises), the
  outcome of building, submitting and confirming a real transaction (\<open>Inl\<close> when any step
  of \<open>_execute_real_trade\<close> raises, \<open>Inr\<close> the transaction id), the measured execution
  time, the wall clock printed as seconds, the bytes \<open>os.urandom(12)\<close> returns and
  whether \<open>websocket.send\<close> raises.
\<close>

record world =
  current_date :: int
  balance_lamports :: "int option"
  trade_reply :: "str + str"
  elapsed_ms :: int
  clock_text :: str
  urandom12 :: bytes
  send_raises :: bool

section \<open>The trading engine (pump\_trading.py)\<close>

text \<open>\<open>TradingEngine.__init__\<close>, on the day \<open>today\<close>.\<close>

definition new_engine :: "config \<Rightarrow> int \<Rightarrow> engine" where
  "new_engine cfg today =
     \<lparr>stats = \<lparr>total_trades = 0, successful_trades = 0, failed_trades = 0,
               total_volume_sol = 0, average_execution_time = 0\<rparr>,
      trading_keypair = None,
      max_slippage = cfg_max_slippage cfg,
      trade_amount_sol = cfg_trade_amount_sol cfg,
      daily_volume_limit = daily_trade_limit_sol cfg,
      daily_volume_used = 0,
      last_reset_day = today,
      gateway_calls = []\<rparr>"

definition get_wallet_balance :: "world \<Rightarrow> engine \<Rightarrow> real \<times> engine" where
  "get_wallet_balance wd e =
     (let e' = e\<lparr>gateway_calls := gateway_calls e @ [Balance_Query]\<rparr>
      in case balance_lamports wd of
           Some l \<Rightarrow> (real_of_int l / 10 ^ 9, e')
         | None \<Rightarrow> (0, e'))"

definition check_trade_limits :: "config \<Rightarrow> world \<Rightarrow> real \<Rightarrow> engine \<Rightarrow> (exn + unit) \<times> engine" where
  "check_trade_limits cfg wd amount e =
     (let e1 = (if current_date wd > last_reset_day e
                then e\<lparr>daily_volume_used := 0, last_reset_day := current_date wd\<rparr>
                else e)
      in if amount > max_trade_size_sol cfg
           then (Inl (Trade_Too_Large amount (max_trade_size_sol cfg)), e1)
         else if amount < min_trade_size_sol cfg
           then (Inl (Trade_Too_Small amount (min_trade_size_sol cfg)), e1)
         else if daily_volume_used e1 + amount > daily_volume_limit e1
           then (Inl (Daily_Limit_Exceeded (daily_volume_used e1 + amount) (daily_volume_limit e1)), e1)
         else if trading_keypair e1 = None
           then (Inl Attribute_Error, e1)
         else (case get_wallet_balance wd e1 of (balance, e2) \<Rightarrow>
                 if balance < amount * (11 / 10)
                   then (Inl (Insufficient_Funds balance (amount * (11 / 10))), e2)
                 else (Inr (), e2)))"

text \<open>
  \<open>_execute_real_trade\<close>: every failure between the token lookup and the confirmation
  is re-raised as one \<open>ValueError\<close>; the daily volume is increased only after the
  confirmation, and nothing after that point can raise.
\<close>

definition execute_real_trade ::
  "world \<Rightarrow> str \<Rightarrow> real \<Rightarrow> real \<Rightarrow> engine \<Rightarrow> (exn + trade_result) \<times> engine" where
  "execute_real_trade wd token amount slippage e =
     (let e1 = e\<lparr>gateway_calls := gateway_calls e @ [Real_Trade token amount]\<rparr>
      in case trade_reply wd of
           Inl err \<Rightarrow> (Inl (Transaction_Failed err), e1)
         | Inr tx_id \<Rightarrow>
             (Inr \<lparr>success = True, transaction_id = Some tx_id, error_message = None,
                   res_token_address = Some token, res_amount_sol = Some amount,
                   execution_time_ms = Some (elapsed_ms wd)\<rparr>,
              e1\<lparr>daily_volume_used := daily_volume_used e1 + amount\<rparr>))"

definition mock_trade :: "world \<Rightarrow> str \<Rightarrow> real \<Rightarrow> engine \<Rightarrow> trade_result \<times> engine" where
  "mock_trade wd token amount e =
     (\<lparr>success = True, transaction_id = Some (''mock_'' @ clock_text wd), error_message = None,
       res_token_address = Some token, res_amount_sol = Some amount,
       execution_time_ms = Some (elapsed_ms wd)\<rparr>,
      e\<lparr>gateway_calls := gateway_calls e @ [Mock_Trade token amount]\<rparr>)"

text \<open>
  \<open>_update_trade_stats\<close>. \<open>if result.amount_sol\<close> and \<open>if result.execution_time_ms\<close>
  are Python truth tests: \<open>None\<close> and zero are both false.
\<close>

definition update_trade_stats :: "trade_result \<Rightarrow> trade_stats \<Rightarrow> trade_stats" where
  "update_trade_stats r st =
     (let st1 = st\<lparr>total_trades := total_trades st + 1\<rparr>;
          st2 = (if success r
                 then (let st' = st1\<lparr>successful_trades := successful_trades st1 + 1\<rparr>
                       in case res_amount_sol r of
                            Some a \<Rightarrow> if a \<noteq> 0
                                      then st'\<lparr>total_volume_sol := total_volume_sol st' + a\<rparr>
                                      else st'
                          | None \<Rightarrow> st')
                 else st1\<lparr>failed_trades := failed_trades st1 + 1\<rparr>)
      in case execution_time_ms r of
           Some t \<Rightarrow>
             if t \<noteq> 0
             then st2\<lparr>average_execution_time :=
                        (average_execution_time st2 * (real (total_trades st2) - 1) + real_of_int t)
                          / real (total_trades st2)\<rparr>
             else st2
         | None \<Rightarrow> st2)"

text \<open>The \<open>except\<close> branch of \<open>execute_pump_trade\<close>.\<close>

definition failed_result :: "world \<Rightarrow> command \<Rightarrow> exn \<Rightarrow> trade_result" where
  "failed_result wd c err =
     \<lparr>success = False, transaction_id = None, error_message = Some err,
      res_token_address = cmd_token_address c, res_amount_sol = cmd_amount_sol c,
      execution_time_ms = Some (elapsed_ms wd)\<rparr>"

definition execute_pump_trade :: "config \<Rightarrow> world \<Rightarrow> command \<Rightarrow> engine \<Rightarrow> trade_result \<times> engine" where
  "execute_pump_trade cfg wd c e =
     (let amount = (case cmd_amount_sol c of Some a \<Rightarrow> a | None \<Rightarrow> trade_amount_sol e);
          slippage = (case cmd_max_slippage c of Some s \<Rightarrow> s | None \<Rightarrow> max_slippage e)
      in case cmd_token_address c of
           None \<Rightarrow> (failed_result wd c No_Token_Address, e)
         | Some token \<Rightarrow>
             if token = [] then (failed_result wd c No_Token_Address, e)
             else if trading_keypair e = None
               then (failed_result wd c Wallet_Not_Initialized, e)
             else (case check_trade_limits cfg wd amount e of
                     (Inl err, e1) \<Rightarrow> (failed_result wd c err, e1)
                   | (Inr u, e1) \<Rightarrow>
                       if mock_trading cfg then mock_trade wd token amount e1
                       else (case execute_real_trade wd token amount slippage e1 of
                               (Inl err, e2) \<Rightarrow> (failed_result wd c err, e2)
                             | (Inr r, e2) \<Rightarrow>
                                 (r, e2\<lparr>stats := update_trade_stats r (stats e2)\<rparr>))))"

section \<open>Cryptographic helpers (encryption\_utils.py)\<close>

text \<open>
  Messages on the wire after JSON decoding (inbound) and before JSON encoding (outbound).
  \<open>Not_An_Object\<close> is a JSON value that is not a dictionary; \<open>Unknown_Type\<close> is a
  dictionary whose \<open>type\<close> is none of the handled ones. Optional arguments are
  \<open>message.get(...)\<close> results.
\<close>

datatype in_msg =
    Encrypted "str option"
  | Registration_Success "str option"
  | Registration_Error
  | Pump_Command command
  | Heartbeat_Request
  | Wallet_Assignment "int option" "str option"
  | Status_Request
  | Unknown_Type
  | Not_An_Object

datatype out_msg =
    Register
  | Pump_Result "str option" trade_result
  | Pump_Error "str option" exn
  | Heartbeat_Ack
  | Wallet_Assigned "int option" str
  | Worker_Status

text \<open>
  The library functions the source calls (\<open>base64\<close>, \<open>str.encode\<close>, \<open>bytes.decode\<close>,
  \<open>cryptography\<close>'s AESGCM, X25519 and HKDF, \<open>json\<close>, \<open>base58\<close> with \<open>solders\<close>'
  Keypair) are parameters of the model; \<open>None\<close> is a raised exception. The AES-GCM
  functions take key, nonce and data, and include the constructor \<open>AESGCM(key)\<close>, which
  raises on a key of the wrong length.
\<close>

record lib =
  utf8_encode :: "str \<Rightarrow> bytes option"
  utf8_decode :: "bytes \<Rightarrow> str option"
  b64encode :: "bytes \<Rightarrow> str"
  b64decode :: "str \<Rightarrow> bytes option"
  aesgcm_encrypt :: "bytes \<Rightarrow> bytes \<Rightarrow> bytes \<Rightarrow> bytes option"
  aesgcm_decrypt :: "bytes \<Rightarrow> bytes \<Rightarrow> bytes \<Rightarrow> bytes option"
  x25519_exchange :: "bytes \<Rightarrow> bytes \<Rightarrow> bytes option"
  hkdf_sha256_32 :: "bytes \<Rightarrow> bytes"
  json_dumps :: "out_msg \<Rightarrow> str option"
  json_dumps_encrypted :: "str \<Rightarrow> str"
  json_loads :: "str \<Rightarrow> in_msg option"
  keypair_from_base58 :: "str \<Rightarrow> keypair option"
  pubkey :: "keypair \<Rightarrow> str"

text \<open>Python's truth test on an optional string or byte string.\<close>

fun truthy :: "'a list option \<Rightarrow> bool" where
  "truthy None = False"
| "truthy (Some xs) = (xs \<noteq> [])"

definition perform_key_exchange_x25519 :: "lib \<Rightarrow> str \<Rightarrow> str \<Rightarrow> exn + bytes" where
  "perform_key_exchange_x25519 L private_key_base64 public_key_other_base64 =
     (case b64decode L private_key_base64 of
        None \<Rightarrow> Inl Key_Exchange_Failed
      | Some private_key_bytes \<Rightarrow>
          (case b64decode L public_key_other_base64 of
             None \<Rightarrow> Inl Key_Exchange_Failed
           | Some public_key_other_bytes \<Rightarrow>
               (case x25519_exchange L private_key_bytes public_key_other_bytes of
                  None \<Rightarrow> Inl Key_Exchange_Failed
                | Some shared \<Rightarrow> Inr (hkdf_sha256_32 L shared))))"

text \<open>
  \<open>encrypt_aes_gcm\<close>; the nonce drawn from \<open>os.urandom(12)\<close> is an argument. The slices
  \<open>x[:-16]\<close> and \<open>x[-16:]\<close> are \<open>take\<close> and \<open>drop\<close> at \<open>length x - 16\<close>, which is 0
  for a shorter \<open>x\<close>, as in Python.
\<close>

definition encrypt_aes_gcm :: "lib \<Rightarrow> bytes \<Rightarrow> str \<Rightarrow> bytes \<Rightarrow> exn + (str \<times> str \<times> str)" where
  "encrypt_aes_gcm L nonce plaintext shared_key_bytes =
     (case utf8_encode L plaintext of
        None \<Rightarrow> Inl Encrypt_Failed
      | Some plaintext_bytes \<Rightarrow>
          (case aesgcm_encrypt L shared_key_bytes nonce plaintext_bytes of
             None \<Rightarrow> Inl Encrypt_Failed
           | Some ciphertext_with_tag \<Rightarrow>
               (let n = length ciphertext_with_tag - 16
                in Inr (b64encode L (take n ciphertext_with_tag),
                        b64encode L nonce,
                        b64encode L (drop n ciphertext_with_tag)))))"

definition decrypt_aes_gcm :: "lib \<Rightarrow> str \<Rightarrow> str \<Rightarrow> str \<Rightarrow> bytes \<Rightarrow> exn + str" where
  "decrypt_aes_gcm L ciphertext_base64 nonce_base64 tag_base64 shared_key_bytes =
     (case b64decode L ciphertext_base64 of
        None \<Rightarrow> Inl Decrypt_Failed
      | Some ciphertext \<Rightarrow>
          (case b64decode L nonce_base64 of
             None \<Rightarrow> Inl Decrypt_Failed
           | Some nonce \<Rightarrow>
               (case b64decode L tag_base64 of
                  None \<Rightarrow> Inl Decrypt_Failed
                | Some tag \<Rightarrow>
                    (case aesgcm_decrypt L shared_key_bytes nonce (ciphertext @ tag) of
                       None \<Rightarrow> Inl Decrypt_Failed
                     | Some plaintext_bytes \<Rightarrow>
                         (case utf8_decode L plaintext_bytes of
                            None \<Rightarrow> Inl Decrypt_Failed
                          | Some s \<Rightarrow> Inr s)))))"

text \<open>\<open>s.split(":")\<close>: the pieces between the colons, at least one.\<close>

fun split_colon :: "str \<Rightarrow> str list" where
  "split_colon [] = [[]]"
| "split_colon (c # cs) =
     (if c = CHR '':'' then [] # split_colon cs
      else (case split_colon cs of
              [] \<Rightarrow> [[c]]
            | p # ps \<Rightarrow> (c # p) # ps))"

definition decrypt_wallet_key :: "lib \<Rightarrow> str \<Rightarrow> bytes \<Rightarrow> exn + str" where
  "decrypt_wallet_key L encrypted_data shared_key_bytes =
     (case split_colon encrypted_data of
        [ciphertext_base64, nonce_base64, tag_base64] \<Rightarrow>
          decrypt_aes_gcm L ciphertext_base64 nonce_base64 tag_base64 shared_key_bytes
      | _ \<Rightarrow> Inl Bad_Encrypted_Format)"

section \<open>The worker application (worker\_app.py)\<close>

text \<open>
  Error and warning lines written to the log, by the place that writes them. The log,
  the list of frames handed to \<open>websocket.send\<close> (each with the message it carries) and
  the list of \<open>asyncio.sleep\<close> delays of the connect loop are ghost fields of the
  worker. \<open>ws_open\<close> stands for \<open>self.websocket and not self.websocket.closed\<close>. The
  metrics sink and \<open>stats["last_heartbeat"]\<close> are not modelled.
\<close>

datatype log_site = At_Send | At_Encrypt | At_Decrypt | At_Process | At_Pump | At_Wallet | At_Connect

datatype log_event =
    Log_Error log_site exn
  | Log_Registration_Rejected
  | Log_Unknown_Type
  | Log_Keys_Missing

record worker =
  is_running :: bool
  ws_open :: bool
  reconnect_attempts :: nat
  max_reconnect_attempts :: nat
  worker_private_key :: "str option"
  coordinator_public_key :: "str option"
  shared_key :: "bytes option"
  wallets :: "int option \<Rightarrow> keypair option"
  trading_engine :: "engine option"
  messages_sent :: nat
  messages_received :: nat
  trades_executed :: nat
  outbox :: "(out_msg \<times> str) list"
  error_log :: "log_event list"
  sleeps :: "real list"

definition log_error :: "log_site \<Rightarrow> exn \<Rightarrow> worker \<Rightarrow> worker" where
  "log_error site err w = w\<lparr>error_log := error_log w @ [Log_Error site err]\<rparr>"

definition initialize_encryption :: "config \<Rightarrow> lib \<Rightarrow> worker \<Rightarrow> (exn + unit) \<times> worker" where
  "initialize_encryption cfg L w =
     (if \<not> encryption_enabled cfg then (Inr (), w)
      else (case (worker_private_key w, coordinator_public_key w) of
              (Some priv, Some pub) \<Rightarrow>
                if priv = [] \<or> pub = []
                then (Inr (), w\<lparr>error_log := error_log w @ [Log_Keys_Missing]\<rparr>)
                else (case perform_key_exchange_x25519 L priv pub of
                        Inr k \<Rightarrow> (Inr (), w\<lparr>shared_key := Some k\<rparr>)
                      | Inl err \<Rightarrow> (Inl Encryption_Init_Failed, w))
            | _ \<Rightarrow> (Inr (), w\<lparr>error_log := error_log w @ [Log_Keys_Missing]\<rparr>)))"

text \<open>
  \<open>_encrypt_message\<close> and \<open>_decrypt_message\<close>. With \<open>self.shared_key\<close> unset,
  \<open>AESGCM(None)\<close> raises inside the helper's \<open>try\<close>.
\<close>

definition encrypt_message :: "lib \<Rightarrow> world \<Rightarrow> str \<Rightarrow> worker \<Rightarrow> (exn + str) \<times> worker" where
  "encrypt_message L wd message w =
     (case (case shared_key w of
              None \<Rightarrow> Inl Encrypt_Failed
            | Some k \<Rightarrow> encrypt_aes_gcm L (urandom12 wd) message k) of
        Inr (ciphertext, nonce, tag) \<Rightarrow> (Inr (ciphertext @ '':'' @ nonce @ '':'' @ tag), w)
      | Inl err \<Rightarrow> (Inl err, log_error At_Encrypt err w))"

definition decrypt_message :: "lib \<Rightarrow> str \<Rightarrow> worker \<Rightarrow> (exn + str) \<times> worker" where
  "decrypt_message L encrypted_data w =
     (case (case split_colon encrypted_data of
              [ciphertext, nonce, tag] \<Rightarrow>
                (case shared_key w of
                   None \<Rightarrow> Inl Decrypt_Failed
                 | Some k \<Rightarrow> decrypt_aes_gcm L ciphertext nonce tag k)
            | _ \<Rightarrow> Inl Bad_Encrypted_Format) of
        Inr text \<Rightarrow> (Inr text, w)
      | Inl err \<Rightarrow> (Inl err, log_error At_Decrypt err w))"

definition send_message :: "config \<Rightarrow> lib \<Rightarrow> world \<Rightarrow> out_msg \<Rightarrow> worker \<Rightarrow> (exn + unit) \<times> worker" where
  "send_message cfg L wd message w =
     (if \<not> ws_open w then (Inl Websocket_Closed, w)
      else (case json_dumps L message of
              None \<Rightarrow> (Inl Json_Error, log_error At_Send Json_Error w)
            | Some message_json \<Rightarrow>
                (case (if encryption_enabled cfg \<and> truthy (shared_key w)
                       then (case encrypt_message L wd message_json w of
                               (Inr encrypted_data, w1) \<Rightarrow> (Inr (json_dumps_encrypted L encrypted_data), w1)
                             | (Inl err, w1) \<Rightarrow> (Inl err, w1))
                       else (Inr message_json, w)) of
                   (Inl err, w1) \<Rightarrow> (Inl err, log_error At_Send err w1)
                 | (Inr frame, w1) \<Rightarrow>
                     if send_raises wd then (Inl Send_Failed, log_error At_Send Send_Failed w1)
                     else (Inr (), w1\<lparr>outbox := outbox w1 @ [(message, frame)],
                                      messages_sent := messages_sent w1 + 1\<rparr>))))"

definition send_registration :: "config \<Rightarrow> lib \<Rightarrow> world \<Rightarrow> worker \<Rightarrow> (exn + unit) \<times> worker" where
  "send_registration cfg L wd w = send_message cfg L wd Register w"

text \<open>
  \<open>connect_to_coordinator\<close>. Each element of the list is one pass through the loop
  body: whether \<open>websockets.connect\<close> succeeds, and the world the registration is sent
  in. The loop can go on for ever (a connection that opens and a registration that cannot
  be sent set the counter back to 1 each time), so the list is also the fuel: \<open>None\<close>
  means that the loop has not returned when the list is used up.
\<close>

definition after_failure :: "config \<Rightarrow> real \<Rightarrow> exn \<Rightarrow> worker \<Rightarrow> real \<times> worker" where
  "after_failure cfg delay err w =
     (let w1 = log_error At_Connect err (w\<lparr>reconnect_attempts := reconnect_attempts w + 1\<rparr>)
      in if reconnect_attempts w1 < max_reconnect_attempts w1
         then (delay * backoff_factor cfg, w1\<lparr>sleeps := sleeps w1 @ [delay]\<rparr>)
         else (delay, w1))"

fun connect_loop ::
  "config \<Rightarrow> lib \<Rightarrow> (bool \<times> world) list \<Rightarrow> real \<Rightarrow> worker \<Rightarrow> (bool \<times> worker) option" where
  "connect_loop cfg L [] delay w =
     (if is_running w \<and> reconnect_attempts w < max_reconnect_attempts w then None
      else Some (False, w))"
| "connect_loop cfg L ((conn_ok, wd) # rest) delay w =
     (if is_running w \<and> reconnect_attempts w < max_reconnect_attempts w
      then (if conn_ok
            then (case send_registration cfg L wd (w\<lparr>ws_open := True, reconnect_attempts := 0\<rparr>) of
                    (Inr u, w1) \<Rightarrow> Some (True, w1)
                  | (Inl err, w1) \<Rightarrow>
                      (case after_failure cfg delay err w1 of
                         (delay', w2) \<Rightarrow> connect_loop cfg L rest delay' w2))
            else (case after_failure cfg delay Connect_Failed w of
                    (delay', w2) \<Rightarrow> connect_loop cfg L rest delay' w2))
      else Some (False, w))"

definition connect_to_coordinator ::
  "config \<Rightarrow> lib \<Rightarrow> (bool \<times> world) list \<Rightarrow> worker \<Rightarrow> (bool \<times> worker) option" where
  "connect_to_coordinator cfg L attempts w = connect_loop cfg L attempts (retry_delay cfg) w"

text \<open>\<open>__init__\<close> fixes \<open>reconnect_attempts = 0\<close> and \<open>max_reconnect_attempts = 10\<close>.\<close>

definition new_worker :: "str option \<Rightarrow> str option \<Rightarrow> worker" where
  "new_worker priv pub =
     \<lparr>is_running = False, ws_open = False, reconnect_attempts = 0, max_reconnect_attempts = 10,
      worker_private_key = priv, coordinator_public_key = pub, shared_key = None,
      wallets = (\<lambda>i. None), trading_engine = None,
      messages_sent = 0, messages_received = 0, trades_executed = 0,
      outbox = [], error_log = [], sleeps = []\<rparr>"

definition shutdown :: "worker \<Rightarrow> worker" where
  "shutdown w = (if \<not> is_running w then w else w\<lparr>is_running := False, ws_open := False\<rparr>)"

definition handle_registration_success ::
  "config \<Rightarrow> lib \<Rightarrow> str option \<Rightarrow> worker \<Rightarrow> (exn + unit) \<times> worker" where
  "handle_registration_success cfg L coordinator_key w =
     (if truthy coordinator_key \<and> \<not> truthy (coordinator_public_key w)
      then initialize_encryption cfg L (w\<lparr>coordinator_public_key := coordinator_key\<rparr>)
      else (Inr (), w))"

definition handle_registration_error :: "worker \<Rightarrow> (exn + unit) \<times> worker" where
  "handle_registration_error w =
     (Inr (), shutdown (w\<lparr>error_log := error_log w @ [Log_Registration_Rejected]\<rparr>))"

definition handle_pump_command ::
  "config \<Rightarrow> lib \<Rightarrow> world \<Rightarrow> command \<Rightarrow> worker \<Rightarrow> (exn + unit) \<times> worker" where
  "handle_pump_command cfg L wd message w =
     (case (case trading_engine w of
              None \<Rightarrow> (Inl Engine_Not_Initialized, w)
            | Some e \<Rightarrow>
                (case execute_pump_trade cfg wd message e of
                   (result, e') \<Rightarrow>
                     (case send_message cfg L wd (Pump_Result (cmd_command_id message) result)
                             (w\<lparr>trading_engine := Some e'\<rparr>) of
                        (Inr u, w1) \<Rightarrow> (Inr (), w1\<lparr>trades_executed := trades_executed w1 + 1\<rparr>)
                      | (Inl err, w1) \<Rightarrow> (Inl err, w1)))) of
        (Inr u, w1) \<Rightarrow> (Inr (), w1)
      | (Inl err, w1) \<Rightarrow>
          send_message cfg L wd (Pump_Error (cmd_command_id message) err) (log_error At_Pump err w1))"

definition handle_heartbeat_request :: "config \<Rightarrow> lib \<Rightarrow> world \<Rightarrow> worker \<Rightarrow> (exn + unit) \<times> worker" where
  "handle_heartbeat_request cfg L wd w = send_message cfg L wd Heartbeat_Ack w"

definition handle_wallet_assignment ::
  "config \<Rightarrow> lib \<Rightarrow> world \<Rightarrow> int option \<Rightarrow> str option \<Rightarrow> worker \<Rightarrow> (exn + unit) \<times> worker" where
  "handle_wallet_assignment cfg L wd wallet_index encrypted_key w =
     (case (case shared_key w of
              None \<Rightarrow> (Inl Encryption_Not_Initialized, w)
            | Some k \<Rightarrow>
                if k = [] then (Inl Encryption_Not_Initialized, w)
                else (case encrypted_key of
                        None \<Rightarrow> (Inl Attribute_Error, w)
                      | Some data \<Rightarrow>
                          (case decrypt_wallet_key L data k of
                             Inl err \<Rightarrow> (Inl err, w)
                           | Inr private_key_base58 \<Rightarrow>
                               (case keypair_from_base58 L private_key_base58 of
                                  None \<Rightarrow> (Inl Keypair_Error, w)
                                | Some kp \<Rightarrow>
                                    send_message cfg L wd (Wallet_Assigned wallet_index (pubkey L kp))
                                      (w\<lparr>wallets := (wallets w)(wallet_index := Some kp)\<rparr>))))) of
        (Inr u, w1) \<Rightarrow> (Inr (), w1)
      | (Inl err, w1) \<Rightarrow> (Inr (), log_error At_Wallet err w1))"

definition handle_status_request :: "config \<Rightarrow> lib \<Rightarrow> world \<Rightarrow> worker \<Rightarrow> (exn + unit) \<times> worker" where
  "handle_status_request cfg L wd w = send_message cfg L wd Worker_Status w"

text \<open>The \<open>if\<close>/\<open>elif\<close> chain of \<open>_process_message\<close> on the message type.\<close>

fun dispatch :: "config \<Rightarrow> lib \<Rightarrow> world \<Rightarrow> in_msg \<Rightarrow> worker \<Rightarrow> (exn + unit) \<times> worker" where
  "dispatch cfg L wd (Registration_Success k) w = handle_registration_success cfg L k w"
| "dispatch cfg L wd Registration_Error w = handle_registration_error w"
| "dispatch cfg L wd (Pump_Command c) w = handle_pump_command cfg L wd c w"
| "dispatch cfg L wd Heartbeat_Request w = handle_heartbeat_request cfg L wd w"
| "dispatch cfg L wd (Wallet_Assignment i k) w = handle_wallet_assignment cfg L wd i k w"
| "dispatch cfg L wd Status_Request w = handle_status_request cfg L wd w"
| "dispatch cfg L wd Not_An_Object w = (Inl Attribute_Error, w)"
| "dispatch cfg L wd m w = (Inr (), w\<lparr>error_log := error_log w @ [Log_Unknown_Type]\<rparr>)"

text \<open>
  The body of the \<open>try\<close> in \<open>_process_message\<close>, and the method itself, whose
  \<open>except Exception\<close> logs whatever the body raises.
\<close>

definition process_body :: "config \<Rightarrow> lib \<Rightarrow> world \<Rightarrow> str \<Rightarrow> worker \<Rightarrow> (exn + unit) \<times> worker" where
  "process_body cfg L wd raw_message w =
     (case json_loads L raw_message of
        None \<Rightarrow> (Inl Json_Error, w)
      | Some message \<Rightarrow>
          (let w1 = w\<lparr>messages_received := messages_received w + 1\<rparr>
           in case message of
                Not_An_Object \<Rightarrow> (Inl Attribute_Error, w1)
              | Encrypted data \<Rightarrow>
                  (case data of
                     None \<Rightarrow> (Inl Key_Error, w1)
                   | Some d \<Rightarrow>
                       (case decrypt_message L d w1 of
                          (Inl err, w2) \<Rightarrow> (Inl err, w2)
                        | (Inr decrypted, w2) \<Rightarrow>
                            (case json_loads L decrypted of
                               None \<Rightarrow> (Inl Json_Error, w2)
                             | Some inner \<Rightarrow> dispatch cfg L wd inner w2)))
              | _ \<Rightarrow> dispatch cfg L wd message w1))"

definition process_message :: "config \<Rightarrow> lib \<Rightarrow> world \<Rightarrow> str \<Rightarrow> worker \<Rightarrow> (exn + unit) \<times> worker" where
  "process_message cfg L wd raw_message w =
     (case process_body cfg L wd raw_message w of
        (Inr u, w1) \<Rightarrow> (Inr (), w1)
      | (Inl err, w1) \<Rightarrow> (Inr (), log_error At_Process err w1))"

section \<open>Notions used in the statements\<close>

text \<open>
  A gateway call that starts a trade; a result of \<open>_check_trade_limits\<close> that is one
  of its two size errors; the exceptions raised by the validation steps of
  \<open>execute_pump_trade\<close> and \<open>_check_trade_limits\<close>.
\<close>

fun is_trade_call :: "gateway_call \<Rightarrow> bool" where
  "is_trade_call Balance_Query = False"
| "is_trade_call (Real_Trade t a) = True"
| "is_trade_call (Mock_Trade t a) = True"

fun size_rejected :: "(exn + unit) \<Rightarrow> bool" where
  "size_rejected (Inl (Trade_Too_Large a m)) = True"
| "size_rejected (Inl (Trade_Too_Small a m)) = True"
| "size_rejected r = False"

fun is_validation_error :: "exn \<Rightarrow> bool" where
  "is_validation_error No_Token_Address = True"
| "is_validation_error Wallet_Not_Initialized = True"
| "is_validation_error (Trade_Too_Large a m) = True"
| "is_validation_error (Trade_Too_Small a m) = True"
| "is_validation_error (Daily_Limit_Exceeded a m) = True"
| "is_validation_error (Insufficient_Funds a m) = True"
| "is_validation_error err = False"

text \<open>
  The amount \<open>execute_pump_trade\<close> works with:
  \<open>command.get("amount_sol", self.trade_amount_sol)\<close>.
\<close>

definition requested_amount :: "command \<Rightarrow> engine \<Rightarrow> real" where
  "requested_amount c e = (case cmd_amount_sol c of Some a \<Rightarrow> a | None \<Rightarrow> trade_amount_sol e)"

text \<open>
  The defaults of config.py, and a world, an engine and a command to evaluate the
  functions on.
\<close>

definition default_config :: config where
  "default_config =
     \<lparr>encryption_enabled = True, mock_trading = False,
      cfg_max_slippage = 5 / 100, cfg_trade_amount_sol = 1 / 100,
      max_trade_size_sol = 1, min_trade_size_sol = 1 / 1000,
      daily_trade_limit_sol = 10, retry_delay = 1, backoff_factor = 2\<rparr>"

definition calm_world :: world where
  "calm_world =
     \<lparr>current_date = 101, balance_lamports = Some 5000000000, trade_reply = Inr ''tx1'',
      elapsed_ms = 120, clock_text = ''1700000000'', urandom12 = ''abcdefghijkl'',
      send_raises = False\<rparr>"

definition funded_engine :: engine where
  "funded_engine = (new_engine default_config 100)\<lparr>trading_keypair := Some ''wallet'', daily_volume_used := 19 / 2\<rparr>"

definition buy :: "str option \<Rightarrow> real \<Rightarrow> command" where
  "buy token amount =
     \<lparr>cmd_token_address = token, cmd_amount_sol = Some amount,
      cmd_max_slippage = None, cmd_command_id = Some ''c1''\<rparr>"


text \<open>
  A stand-in for the libraries, to evaluate the functions on: base64 and UTF-8 are the
  identity, the cipher reverses the plaintext and appends the first 16 bytes of the key
  as the tag, the key exchange accepts keys of 32 bytes, and four frames decode to
  messages.
\<close>

definition key_a :: str where
  "key_a = ''AAAAAAAAAAAAAAAAAAAAAAAAAAAAAAAA''"

definition key_b :: str where
  "key_b = ''BBBBBBBBBBBBBBBBBBBBBBBBBBBBBBBB''"

definition key_p :: str where
  "key_p = ''PPPPPPPPPPPPPPPPPPPPPPPPPPPPPPPP''"

definition toy_json_loads :: "str \<Rightarrow> in_msg option" where
  "toy_json_loads s =
     (if s = ''pump'' then Some (Pump_Command (buy None (1 / 100)))
      else if s = ''new_key'' then Some (Registration_Success (Some key_b))
      else if s = ''bad_key'' then Some (Registration_Success (Some ''short''))
      else if s = ''wallet'' then Some (Wallet_Assignment (Some 0) (Some ''c:n:t''))
      else None)"

definition toy_lib :: lib where
  "toy_lib =
     \<lparr>utf8_encode = Some, utf8_decode = Some,
      b64encode = (\<lambda>b. b), b64decode = Some,
      aesgcm_encrypt = (\<lambda>key nonce p.
         if length key = 32 \<and> length nonce = 12 then Some (rev p @ take 16 key) else None),
      aesgcm_decrypt = (\<lambda>key nonce c.
         if length key = 32 \<and> length nonce = 12 \<and> 16 \<le> length c
            \<and> drop (length c - 16) c = take 16 key
         then Some (rev (take (length c - 16) c)) else None),
      x25519_exchange = (\<lambda>a b. if length a = 32 \<and> length b = 32 then Some (a @ b) else None),
      hkdf_sha256_32 = (\<lambda>s. take 32 (rev s @ replicate 32 (CHR ''0''))),
      json_dumps = (\<lambda>m. Some ''{}''),
      json_dumps_encrypted = (\<lambda>d. ''{'' @ d @ ''}''),
      json_loads = toy_json_loads,
      keypair_from_base58 = Some,
      pubkey = (\<lambda>kp. kp)\<rparr>"

text \<open>
  A worker that is running, with an open connection, a trading engine and the private
  key \<open>key_p\<close>, and no coordinator key yet.
\<close>

definition connected_worker :: worker where
  "connected_worker =
     (new_worker (Some key_p) None)
       \<lparr>is_running := True, ws_open := True, trading_engine := Some funded_engine\<rparr>"

text \<open>
  The same worker holding the coordinator key \<open>key_a\<close> and the session key the
  stand-in library derives from it.
\<close>

definition keyed_worker :: worker where
  "keyed_worker = connected_worker\<lparr>coordinator_public_key := Some key_a, shared_key := Some key_a\<rparr>"

text \<open>The same worker before it connects, as \<open>run\<close> starts it.\<close>

definition running_worker :: worker where
  "running_worker = (new_worker (Some key_p) None)\<lparr>is_running := True\<rparr>"

text \<open>
  What the library documentation promises and the round trip relies on: decoding
  inverts encoding for UTF-8 and base64, AES-GCM decryption under the same 32-byte key
  and 12-byte nonce returns the plaintext, and HKDF with \<open>length=32\<close> returns 32 bytes.
\<close>

definition library_contract :: "lib \<Rightarrow> bool" where
  "library_contract L \<longleftrightarrow>
     (\<forall>s b. utf8_encode L s = Some b \<longrightarrow> utf8_decode L b = Some s)
   \<and> (\<forall>b. b64decode L (b64encode L b) = Some b)
   \<and> (\<forall>key nonce p. length key = 32 \<and> length nonce = 12 \<longrightarrow>
         (\<exists>c. aesgcm_encrypt L key nonce p = Some c \<and> aesgcm_decrypt L key nonce c = Some p))
   \<and> (\<forall>s. length (hkdf_sha256_32 L s) = 32)"

text \<open>
  The session key, once set, is the one derived from the worker's private key and the
  coordinator's public key the worker holds, both non-empty.
\<close>

definition key_consistent :: "lib \<Rightarrow> worker \<Rightarrow> bool" where
  "key_consistent L w =
     (case shared_key w of
        None \<Rightarrow> True
      | Some k \<Rightarrow>
          (case (worker_private_key w, coordinator_public_key w) of
             (Some priv, Some pub) \<Rightarrow>
               priv \<noteq> [] \<and> pub \<noteq> [] \<and> perform_key_exchange_x25519 L priv pub = Inr k
           | _ \<Rightarrow> False))"

text \<open>The key material of a worker.\<close>

definition session_keys :: "worker \<Rightarrow> str option \<times> str option \<times> bytes option" where
  "session_keys w = (worker_private_key w, coordinator_public_key w, shared_key w)"

text \<open>The message a handler may send in reply to an inbound message.\<close>

definition answers :: "in_msg \<Rightarrow> out_msg \<Rightarrow> bool" where
  "answers m r =
     (case m of
        Pump_Command c \<Rightarrow>
          (case r of
             Pump_Result cid res \<Rightarrow> cid = cmd_command_id c
           | Pump_Error cid err \<Rightarrow> cid = cmd_command_id c
           | _ \<Rightarrow> False)
      | Heartbeat_Request \<Rightarrow> r = Heartbeat_Ack
      | Wallet_Assignment i k \<Rightarrow>
          (case r of Wallet_Assigned j p \<Rightarrow> j = i | _ \<Rightarrow> False)
      | Status_Request \<Rightarrow> r = Worker_Status
      | _ \<Rightarrow> False)"

section \<open>Trade limits\<close>

lemma size_rejected_iff:
  "size_rejected (fst (check_trade_limits cfg wd amount e)) \<longleftrightarrow>
     \<not> (min_trade_size_sol cfg \<le> amount \<and> amount \<le> max_trade_size_sol cfg)"
  by (auto simp: check_trade_limits_def get_wallet_balance_def Let_def split: option.splits)

lemma check_trade_calls:
  "filter is_trade_call (gateway_calls (snd (check_trade_limits cfg wd amount e)))
     = filter is_trade_call (gateway_calls e)"
  by (auto simp: check_trade_limits_def get_wallet_balance_def Let_def split: option.splits)

lemma check_stats: "stats (snd (check_trade_limits cfg wd amount e)) = stats e"
  by (auto simp: check_trade_limits_def get_wallet_balance_def Let_def split: option.splits)

lemma check_too_large:
  "max_trade_size_sol cfg < amount \<Longrightarrow>
     fst (check_trade_limits cfg wd amount e) = Inl (Trade_Too_Large amount (max_trade_size_sol cfg))"
  by (simp add: check_trade_limits_def Let_def)

lemma execute_no_token:
  "cmd_token_address c = None \<or> cmd_token_address c = Some [] \<Longrightarrow>
     execute_pump_trade cfg wd c e = (failed_result wd c No_Token_Address, e)"
  by (auto simp: execute_pump_trade_def Let_def)

lemma execute_no_wallet:
  "cmd_token_address c = Some token \<Longrightarrow> token \<noteq> [] \<Longrightarrow> trading_keypair e = None \<Longrightarrow>
     execute_pump_trade cfg wd c e = (failed_result wd c Wallet_Not_Initialized, e)"
  by (simp add: execute_pump_trade_def Let_def)

lemma execute_limit_error:
  "cmd_token_address c = Some token \<Longrightarrow> token \<noteq> [] \<Longrightarrow> trading_keypair e = Some kp \<Longrightarrow>
   check_trade_limits cfg wd (requested_amount c e) e = (Inl err, e1) \<Longrightarrow>
     execute_pump_trade cfg wd c e = (failed_result wd c err, e1)"
  by (simp add: execute_pump_trade_def requested_amount_def Let_def)

lemma execute_limits_ok:
  "cmd_token_address c = Some token \<Longrightarrow> token \<noteq> [] \<Longrightarrow> trading_keypair e = Some kp \<Longrightarrow>
   check_trade_limits cfg wd (requested_amount c e) e = (Inr u, e1) \<Longrightarrow>
     execute_pump_trade cfg wd c e =
       (if mock_trading cfg then mock_trade wd token (requested_amount c e) e1
        else (case trade_reply wd of
                Inl msg \<Rightarrow> (failed_result wd c (Transaction_Failed msg),
                             e1\<lparr>gateway_calls := gateway_calls e1 @ [Real_Trade token (requested_amount c e)]\<rparr>)
              | Inr tx_id \<Rightarrow>
                  (let r = \<lparr>success = True, transaction_id = Some tx_id, error_message = None,
                             res_token_address = Some token, res_amount_sol = Some (requested_amount c e),
                             execution_time_ms = Some (elapsed_ms wd)\<rparr>
                   in (r, e1\<lparr>gateway_calls := gateway_calls e1 @ [Real_Trade token (requested_amount c e)],
                              daily_volume_used := daily_volume_used e1 + requested_amount c e,
                              stats := update_trade_stats r (stats e1)\<rparr>))))"
  by (simp add: execute_pump_trade_def requested_amount_def execute_real_trade_def Let_def split: sum.splits)

lemma execute_rejected:
  assumes "fst (check_trade_limits cfg wd (requested_amount c e) e) = Inl err"
  shows "\<not> success (fst (execute_pump_trade cfg wd c e))"
    and "filter is_trade_call (gateway_calls (snd (execute_pump_trade cfg wd c e))) = filter is_trade_call (gateway_calls e)"
    and "stats (snd (execute_pump_trade cfg wd c e)) = stats e"
    and "error_message (fst (execute_pump_trade cfg wd c e)) = Some err
         \<or> error_message (fst (execute_pump_trade cfg wd c e)) = Some No_Token_Address
         \<or> error_message (fst (execute_pump_trade cfg wd c e)) = Some Wallet_Not_Initialized"
proof -
  obtain e1 where chk: "check_trade_limits cfg wd (requested_amount c e) e = (Inl err, e1)"
    using assms by (cases "check_trade_limits cfg wd (requested_amount c e) e") simp
  have e1_calls: "filter is_trade_call (gateway_calls e1) = filter is_trade_call (gateway_calls e)"
    using check_trade_calls[of cfg wd "requested_amount c e" e] chk by simp
  have e1_stats: "stats e1 = stats e"
    using check_stats[of cfg wd "requested_amount c e" e] chk by simp
  consider (none) "cmd_token_address c = None \<or> cmd_token_address c = Some []"
    | (nowallet) token where "cmd_token_address c = Some token" "token \<noteq> []" "trading_keypair e = None"
    | (checked) token kp where "cmd_token_address c = Some token" "token \<noteq> []" "trading_keypair e = Some kp"
    by (cases "cmd_token_address c"; cases "trading_keypair e") auto
  then have "execute_pump_trade cfg wd c e = (failed_result wd c No_Token_Address, e)
      \<or> execute_pump_trade cfg wd c e = (failed_result wd c Wallet_Not_Initialized, e)
      \<or> execute_pump_trade cfg wd c e = (failed_result wd c err, e1)"
  proof cases
    case none then show ?thesis by (simp add: execute_no_token)
  next
    case nowallet then show ?thesis by (simp add: execute_no_wallet)
  next
    case checked then show ?thesis using chk by (simp add: execute_limit_error)
  qed
  then show "\<not> success (fst (execute_pump_trade cfg wd c e))"
    and "filter is_trade_call (gateway_calls (snd (execute_pump_trade cfg wd c e))) = filter is_trade_call (gateway_calls e)"
    and "stats (snd (execute_pump_trade cfg wd c e)) = stats e"
    and "error_message (fst (execute_pump_trade cfg wd c e)) = Some err
         \<or> error_message (fst (execute_pump_trade cfg wd c e)) = Some No_Token_Address
         \<or> error_message (fst (execute_pump_trade cfg wd c e)) = Some Wallet_Not_Initialized"
    using e1_calls e1_stats by (auto simp: failed_result_def)
qed

text \<open>
  C2. The size bounds are inclusive. An amount above \<open>max_trade_size_sol\<close>, such as the
  maximum plus 0.0001, makes \<open>_check_trade_limits\<close> raise its too-large error, and
  \<open>execute_pump_trade\<close> then returns a failed result without starting a trade. The size
  check rejects exactly the amounts outside the closed interval from
  \<open>min_trade_size_sol\<close> to \<open>max_trade_size_sol\<close>; so, the minimum not being above the
  maximum, an amount equal to either bound passes it.
\<close>

theorem trade_size_bounds_inclusive:
  "(max_trade_size_sol cfg < amount \<longrightarrow>
      fst (check_trade_limits cfg wd amount e) = Inl (Trade_Too_Large amount (max_trade_size_sol cfg)))
   \<and> size_rejected (fst (check_trade_limits cfg wd (max_trade_size_sol cfg + 1 / 10000) e))
   \<and> (min_trade_size_sol cfg \<le> max_trade_size_sol cfg \<longrightarrow>
        \<not> size_rejected (fst (check_trade_limits cfg wd (min_trade_size_sol cfg) e))
      \<and> \<not> size_rejected (fst (check_trade_limits cfg wd (max_trade_size_sol cfg) e)))
   \<and> (size_rejected (fst (check_trade_limits cfg wd amount e)) \<longleftrightarrow>
        \<not> (min_trade_size_sol cfg \<le> amount \<and> amount \<le> max_trade_size_sol cfg))
   \<and> (cmd_amount_sol c = Some amount \<and> max_trade_size_sol cfg < amount \<longrightarrow>
        \<not> success (fst (execute_pump_trade cfg wd c e))
      \<and> filter is_trade_call (gateway_calls (snd (execute_pump_trade cfg wd c e)))
          = filter is_trade_call (gateway_calls e))"
proof -
  have large: "max_trade_size_sol cfg < amount \<longrightarrow>
      fst (check_trade_limits cfg wd amount e) = Inl (Trade_Too_Large amount (max_trade_size_sol cfg))"
    by (simp add: check_too_large)
  have eps: "size_rejected (fst (check_trade_limits cfg wd (max_trade_size_sol cfg + 1 / 10000) e))"
    by (simp add: size_rejected_iff)
  have bounds: "min_trade_size_sol cfg \<le> max_trade_size_sol cfg \<longrightarrow>
        \<not> size_rejected (fst (check_trade_limits cfg wd (min_trade_size_sol cfg) e))
      \<and> \<not> size_rejected (fst (check_trade_limits cfg wd (max_trade_size_sol cfg) e))"
    by (simp add: size_rejected_iff)
  have exec: "cmd_amount_sol c = Some amount \<and> max_trade_size_sol cfg < amount \<longrightarrow>
        \<not> success (fst (execute_pump_trade cfg wd c e))
      \<and> filter is_trade_call (gateway_calls (snd (execute_pump_trade cfg wd c e)))
          = filter is_trade_call (gateway_calls e)"
  proof
    assume h: "cmd_amount_sol c = Some amount \<and> max_trade_size_sol cfg < amount"
    then have "fst (check_trade_limits cfg wd (requested_amount c e) e)
                 = Inl (Trade_Too_Large amount (max_trade_size_sol cfg))"
      by (simp add: check_too_large requested_amount_def)
    then show "\<not> success (fst (execute_pump_trade cfg wd c e))
      \<and> filter is_trade_call (gateway_calls (snd (execute_pump_trade cfg wd c e)))
          = filter is_trade_call (gateway_calls e)"
      using execute_rejected(1,2) by blast
  qed
  show ?thesis using large eps bounds exec size_rejected_iff by blast
qed

theorem trade_size_bounds_inclusive_witness:
  "min_trade_size_sol default_config \<le> max_trade_size_sol default_config
   \<and> cmd_amount_sol (buy (Some ''TOKEN1'') (10001 / 10000)) = Some (10001 / 10000)
   \<and> max_trade_size_sol default_config < 10001 / 10000
   \<and> fst (check_trade_limits default_config calm_world (10001 / 10000) funded_engine)
       = Inl (Trade_Too_Large (10001 / 10000) 1)
   \<and> \<not> size_rejected (fst (check_trade_limits default_config calm_world (1 / 1000) funded_engine))
   \<and> \<not> size_rejected (fst (check_trade_limits default_config calm_world 1 funded_engine))
   \<and> \<not> success (fst (execute_pump_trade default_config calm_world (buy (Some ''TOKEN1'') (10001 / 10000)) funded_engine))"
  using trade_size_bounds_inclusive [of default_config "10001 / 10000" calm_world funded_engine
          "buy (Some ''TOKEN1'') (10001 / 10000)"]
  by (simp add: default_config_def buy_def)

section \<open>Daily volume\<close>

lemma check_resets:
  "last_reset_day e < current_date wd \<Longrightarrow>
     daily_volume_used (snd (check_trade_limits cfg wd amount e)) = 0
   \<and> last_reset_day (snd (check_trade_limits cfg wd amount e)) = current_date wd"
  by (auto simp: check_trade_limits_def get_wallet_balance_def Let_def split: option.splits)

lemma check_after_reset:
  "last_reset_day e < current_date wd \<Longrightarrow>
     check_trade_limits cfg wd amount e
       = check_trade_limits cfg wd amount (e\<lparr>daily_volume_used := 0, last_reset_day := current_date wd\<rparr>)"
  by (simp add: check_trade_limits_def Let_def)

lemma check_daily_after_reset:
  "last_reset_day e < current_date wd \<Longrightarrow>
     (\<exists>x y. fst (check_trade_limits cfg wd amount e) = Inl (Daily_Limit_Exceeded x y))
       \<longleftrightarrow> (min_trade_size_sol cfg \<le> amount \<and> amount \<le> max_trade_size_sol cfg
            \<and> daily_volume_limit e < 0 + amount)"
  by (auto simp: check_trade_limits_def get_wallet_balance_def Let_def split: option.splits)

lemma execute_resets:
  assumes late: "last_reset_day e < current_date wd"
    and tok: "cmd_token_address c = Some token" "token \<noteq> []" and kp: "trading_keypair e = Some kp"
  shows "last_reset_day (snd (execute_pump_trade cfg wd c e)) = current_date wd
       \<and> daily_volume_used (snd (execute_pump_trade cfg wd c e))
           = (if success (fst (execute_pump_trade cfg wd c e)) \<and> \<not> mock_trading cfg
              then 0 + requested_amount c e else 0)"
proof (cases "check_trade_limits cfg wd (requested_amount c e) e")
  case (Pair r e1)
  have e1: "daily_volume_used e1 = 0 \<and> last_reset_day e1 = current_date wd"
    using check_resets[OF late, of cfg "requested_amount c e"] Pair by simp
  show ?thesis
  proof (cases r)
    case (Inl err)
    then show ?thesis using e1 Pair tok kp
      by (simp add: execute_limit_error failed_result_def)
  next
    case (Inr u)
    then show ?thesis using e1 Pair tok kp
      by (simp add: execute_limits_ok mock_trade_def failed_result_def Let_def split: sum.splits)
  qed
qed

text \<open>
  C3. When the current date is later than \<open>last_reset_day\<close>, \<open>_check_trade_limits\<close>
  sets \<open>daily_volume_used\<close> to 0 and \<open>last_reset_day\<close> to the current date before it
  checks anything: whatever volume was recorded, the call behaves as on the reset state,
  it raises the daily-limit error exactly when the amount is within the size bounds and
  alone exceeds the limit, and the reset stays in effect when a later check raises. A
  trade command that reaches the limit check therefore leaves the new date and a daily
  volume of 0, or of its own amount after a real trade that succeeded.
\<close>

theorem daily_volume_reset:
  assumes "last_reset_day e < current_date wd"
  shows "daily_volume_used (snd (check_trade_limits cfg wd amount e)) = 0
       \<and> last_reset_day (snd (check_trade_limits cfg wd amount e)) = current_date wd
       \<and> check_trade_limits cfg wd amount e
           = check_trade_limits cfg wd amount (e\<lparr>daily_volume_used := 0, last_reset_day := current_date wd\<rparr>)
       \<and> ((\<exists>x y. fst (check_trade_limits cfg wd amount e) = Inl (Daily_Limit_Exceeded x y))
            \<longleftrightarrow> (min_trade_size_sol cfg \<le> amount \<and> amount \<le> max_trade_size_sol cfg
                 \<and> \<not> 0 + amount \<le> daily_volume_limit e))
       \<and> (cmd_token_address c = Some token \<and> token \<noteq> [] \<and> trading_keypair e = Some kp \<longrightarrow>
             last_reset_day (snd (execute_pump_trade cfg wd c e)) = current_date wd
           \<and> daily_volume_used (snd (execute_pump_trade cfg wd c e))
               = (if success (fst (execute_pump_trade cfg wd c e)) \<and> \<not> mock_trading cfg
                  then 0 + requested_amount c e else 0))"
proof -
  note late = assms
  have a: "daily_volume_used (snd (check_trade_limits cfg wd amount e)) = 0
       \<and> last_reset_day (snd (check_trade_limits cfg wd amount e)) = current_date wd"
    by (rule check_resets[OF late])
  have b: "check_trade_limits cfg wd amount e
           = check_trade_limits cfg wd amount (e\<lparr>daily_volume_used := 0, last_reset_day := current_date wd\<rparr>)"
    by (rule check_after_reset[OF late])
  have c: "(\<exists>x y. fst (check_trade_limits cfg wd amount e) = Inl (Daily_Limit_Exceeded x y))
            \<longleftrightarrow> (min_trade_size_sol cfg \<le> amount \<and> amount \<le> max_trade_size_sol cfg
                 \<and> \<not> 0 + amount \<le> daily_volume_limit e)"
    using check_daily_after_reset[OF late, of cfg amount] by (simp add: not_le)
  have d: "cmd_token_address c = Some token \<and> token \<noteq> [] \<and> trading_keypair e = Some kp \<longrightarrow>
             last_reset_day (snd (execute_pump_trade cfg wd c e)) = current_date wd
           \<and> daily_volume_used (snd (execute_pump_trade cfg wd c e))
               = (if success (fst (execute_pump_trade cfg wd c e)) \<and> \<not> mock_trading cfg
                  then 0 + requested_amount c e else 0)"
    using execute_resets[OF late] by blast
  from a b c d show ?thesis by blast
qed

theorem daily_volume_reset_witness:
  "last_reset_day funded_engine < current_date calm_world
   \<and> daily_volume_used funded_engine = 19 / 2
   \<and> cmd_token_address (buy (Some ''TOKEN1'') 1) = Some ''TOKEN1'' \<and> ''TOKEN1'' \<noteq> []
   \<and> trading_keypair funded_engine = Some ''wallet''
   \<and> daily_volume_used (snd (check_trade_limits default_config calm_world 1 funded_engine)) = 0
   \<and> last_reset_day (snd (check_trade_limits default_config calm_world 1 funded_engine)) = 101
   \<and> fst (check_trade_limits default_config calm_world 1 funded_engine) = Inr ()
   \<and> success (fst (execute_pump_trade default_config calm_world (buy (Some ''TOKEN1'') 1) funded_engine))
   \<and> daily_volume_used (snd (execute_pump_trade default_config calm_world (buy (Some ''TOKEN1'') 1) funded_engine)) = 1"
  using daily_volume_reset [of funded_engine calm_world default_config 1 "buy (Some ''TOKEN1'') 1" "''TOKEN1''" "''wallet''"]
  by (simp add: funded_engine_def calm_world_def new_engine_def buy_def default_config_def
        execute_pump_trade_def check_trade_limits_def get_wallet_balance_def execute_real_trade_def
        requested_amount_def)

section \<open>Gateway outage\<close>

lemma balance_outage_zero:
  "balance_lamports wd = None \<Longrightarrow> fst (get_wallet_balance wd e) = 0"
  by (simp add: get_wallet_balance_def Let_def)

lemma check_outage:
  assumes out: "balance_lamports wd = None" and pos: "0 < amount"
  shows "\<exists>err. fst (check_trade_limits cfg wd amount e) = Inl err
           \<and> (is_validation_error err \<or> (err = Attribute_Error \<and> trading_keypair e = None))"
  using assms
  by (auto simp: check_trade_limits_def get_wallet_balance_def Let_def)

lemma check_outage_insufficient:
  assumes out: "balance_lamports wd = None" and pos: "0 < amount"
    and size: "min_trade_size_sol cfg \<le> amount" "amount \<le> max_trade_size_sol cfg"
    and daily: "daily_volume_used (snd (check_trade_limits cfg wd amount e)) + amount \<le> daily_volume_limit e"
    and kp: "trading_keypair e = Some kp"
  shows "fst (check_trade_limits cfg wd amount e) = Inl (Insufficient_Funds 0 (amount * (11 / 10)))"
  using assms
  by (auto simp: check_trade_limits_def get_wallet_balance_def Let_def split: if_splits)

lemma execute_outage:
  assumes out: "balance_lamports wd = None" and pos: "0 < requested_amount c e"
  shows "\<not> success (fst (execute_pump_trade cfg wd c e))
       \<and> (\<exists>err. error_message (fst (execute_pump_trade cfg wd c e)) = Some err \<and> is_validation_error err)
       \<and> filter is_trade_call (gateway_calls (snd (execute_pump_trade cfg wd c e)))
           = filter is_trade_call (gateway_calls e)"
proof -
  obtain err where err: "fst (check_trade_limits cfg wd (requested_amount c e) e) = Inl err"
    and v: "is_validation_error err \<or> (err = Attribute_Error \<and> trading_keypair e = None)"
    using check_outage[OF out pos] by blast
  have r: "\<not> success (fst (execute_pump_trade cfg wd c e))"
    and calls: "filter is_trade_call (gateway_calls (snd (execute_pump_trade cfg wd c e)))
           = filter is_trade_call (gateway_calls e)"
    using execute_rejected(1,2)[OF err] by simp_all
  have msg: "\<exists>err'. error_message (fst (execute_pump_trade cfg wd c e)) = Some err' \<and> is_validation_error err'"
  proof (cases "trading_keypair e")
    case None
    show ?thesis
    proof (cases "cmd_token_address c")
      case None
      then show ?thesis by (simp add: execute_no_token failed_result_def)
    next
      case (Some token)
      show ?thesis
      proof (cases "token = []")
        case True
        with Some show ?thesis by (simp add: execute_no_token failed_result_def)
      next
        case False
        with Some \<open>trading_keypair e = None\<close> show ?thesis
          by (simp add: execute_no_wallet failed_result_def)
      qed
    qed
  next
    case (Some kp)
    with v have "is_validation_error err" by simp
    then show ?thesis using execute_rejected(4)[OF err] by auto
  qed
  from r msg calls show ?thesis by blast
qed


text \<open>
  C10. When the gateway's balance query raises, \<open>_get_wallet_balance\<close> returns 0. A
  positive amount then never passes \<open>_check_trade_limits\<close>: with a wallet set the call
  raises one of the validation errors, and it is the insufficient-funds error, with
  balance 0, whenever the size and daily-limit checks pass. \<open>execute_pump_trade\<close>
  accordingly returns a failed result that carries a validation error and starts no
  trade.
\<close>

theorem balance_outage_rejects:
  assumes "balance_lamports wd = None"
  shows "fst (get_wallet_balance wd e) = 0
       \<and> (0 < amount \<and> trading_keypair e = Some kp \<longrightarrow>
            (\<exists>err. fst (check_trade_limits cfg wd amount e) = Inl err \<and> is_validation_error err))
       \<and> (0 < amount \<and> trading_keypair e = Some kp
            \<and> min_trade_size_sol cfg \<le> amount \<and> amount \<le> max_trade_size_sol cfg
            \<and> daily_volume_used (snd (check_trade_limits cfg wd amount e)) + amount \<le> daily_volume_limit e \<longrightarrow>
            fst (check_trade_limits cfg wd amount e) = Inl (Insufficient_Funds 0 (amount * (11 / 10))))
       \<and> (0 < requested_amount c e \<longrightarrow>
            \<not> success (fst (execute_pump_trade cfg wd c e))
          \<and> (\<exists>err. error_message (fst (execute_pump_trade cfg wd c e)) = Some err \<and> is_validation_error err)
          \<and> filter is_trade_call (gateway_calls (snd (execute_pump_trade cfg wd c e)))
              = filter is_trade_call (gateway_calls e))"
proof -
  note out = assms
  have a: "fst (get_wallet_balance wd e) = 0"
    by (rule balance_outage_zero[OF out])
  have b: "0 < amount \<and> trading_keypair e = Some kp \<longrightarrow>
            (\<exists>err. fst (check_trade_limits cfg wd amount e) = Inl err \<and> is_validation_error err)"
    using check_outage[OF out, of amount cfg e] by auto
  have c: "0 < amount \<and> trading_keypair e = Some kp
            \<and> min_trade_size_sol cfg \<le> amount \<and> amount \<le> max_trade_size_sol cfg
            \<and> daily_volume_used (snd (check_trade_limits cfg wd amount e)) + amount \<le> daily_volume_limit e \<longrightarrow>
            fst (check_trade_limits cfg wd amount e) = Inl (Insufficient_Funds 0 (amount * (11 / 10)))"
    using check_outage_insufficient[OF out, of amount cfg e kp] by blast
  have d: "0 < requested_amount c e \<longrightarrow>
            \<not> success (fst (execute_pump_trade cfg wd c e))
          \<and> (\<exists>err. error_message (fst (execute_pump_trade cfg wd c e)) = Some err \<and> is_validation_error err)
          \<and> filter is_trade_call (gateway_calls (snd (execute_pump_trade cfg wd c e)))
              = filter is_trade_call (gateway_calls e)"
    using execute_outage[OF out, of c e cfg] by blast
  from a b c d show ?thesis by blast
qed

theorem balance_outage_rejects_witness:
  "balance_lamports (calm_world\<lparr>balance_lamports := None\<rparr>) = None
   \<and> (0::real) < 1 / 100 \<and> trading_keypair funded_engine = Some ''wallet''
   \<and> min_trade_size_sol default_config \<le> 1 / 100 \<and> 1 / 100 \<le> max_trade_size_sol default_config
   \<and> 0 < requested_amount (buy (Some ''TOKEN1'') (1 / 100)) funded_engine
   \<and> fst (check_trade_limits default_config (calm_world\<lparr>balance_lamports := None\<rparr>) (1 / 100) funded_engine)
       = Inl (Insufficient_Funds 0 (11 / 1000))
   \<and> \<not> success (fst (execute_pump_trade default_config (calm_world\<lparr>balance_lamports := None\<rparr>)
                        (buy (Some ''TOKEN1'') (1 / 100)) funded_engine))"
  using balance_outage_rejects [of "calm_world\<lparr>balance_lamports := None\<rparr>" funded_engine "1 / 100"
          "''wallet''" default_config "buy (Some ''TOKEN1'') (1 / 100)"]
  by (simp add: funded_engine_def calm_world_def new_engine_def buy_def default_config_def
        check_trade_limits_def get_wallet_balance_def requested_amount_def)

section \<open>Trade statistics\<close>

lemma stats_only_after_real_success:
  "stats (snd (execute_pump_trade cfg wd c e))
     = (if success (fst (execute_pump_trade cfg wd c e)) \<and> \<not> mock_trading cfg
        then update_trade_stats (fst (execute_pump_trade cfg wd c e)) (stats e)
        else stats e)"
proof (cases "check_trade_limits cfg wd (requested_amount c e) e")
  case (Pair r e1)
  have e1: "stats e1 = stats e"
    using check_stats[of cfg wd "requested_amount c e" e] Pair by simp
  consider (none) "cmd_token_address c = None \<or> cmd_token_address c = Some []"
    | (nowallet) token where "cmd_token_address c = Some token" "token \<noteq> []" "trading_keypair e = None"
    | (checked) token kp where "cmd_token_address c = Some token" "token \<noteq> []" "trading_keypair e = Some kp"
    by (cases "cmd_token_address c"; cases "trading_keypair e") auto
  then show ?thesis
  proof cases
    case none then show ?thesis by (simp add: execute_no_token failed_result_def)
  next
    case nowallet then show ?thesis by (simp add: execute_no_wallet failed_result_def)
  next
    case checked
    show ?thesis
    proof (cases r)
      case (Inl err)
      with checked Pair e1 show ?thesis by (simp add: execute_limit_error failed_result_def)
    next
      case (Inr u)
      with checked Pair e1 show ?thesis
        by (simp add: execute_limits_ok mock_trade_def failed_result_def Let_def split: sum.splits)
    qed
  qed
qed

text \<open>
  C4. The statistics are not updated once per attempt. On the default configuration, a
  command without a token address and a command whose transaction fails both return a
  failed result and leave \<open>total_trades\<close> and \<open>failed_trades\<close> at 0; with
  \<open>mock_trading\<close> set, a successful mock trade leaves \<open>total_trades\<close> at 0 and does
  not add its amount to \<open>daily_volume_used\<close>.
\<close>

theorem stats_skipped_on_failure_and_mock:
  "\<not> success (fst (execute_pump_trade default_config calm_world (buy None (1 / 100)) funded_engine))
   \<and> stats (snd (execute_pump_trade default_config calm_world (buy None (1 / 100)) funded_engine))
       = stats funded_engine
   \<and> total_trades (stats (snd (execute_pump_trade default_config calm_world (buy None (1 / 100)) funded_engine))) = 0
   \<and> failed_trades (stats (snd (execute_pump_trade default_config calm_world (buy None (1 / 100)) funded_engine))) = 0
   \<and> \<not> success (fst (execute_pump_trade default_config (calm_world\<lparr>trade_reply := Inl ''rpc down''\<rparr>)
                        (buy (Some ''TOKEN1'') (1 / 100)) funded_engine))
   \<and> failed_trades (stats (snd (execute_pump_trade default_config (calm_world\<lparr>trade_reply := Inl ''rpc down''\<rparr>)
                        (buy (Some ''TOKEN1'') (1 / 100)) funded_engine))) = 0
   \<and> total_trades (stats (snd (execute_pump_trade default_config (calm_world\<lparr>trade_reply := Inl ''rpc down''\<rparr>)
                        (buy (Some ''TOKEN1'') (1 / 100)) funded_engine))) = 0
   \<and> success (fst (execute_pump_trade (default_config\<lparr>mock_trading := True\<rparr>) calm_world
                      (buy (Some ''TOKEN1'') (1 / 100)) funded_engine))
   \<and> total_trades (stats (snd (execute_pump_trade (default_config\<lparr>mock_trading := True\<rparr>) calm_world
                      (buy (Some ''TOKEN1'') (1 / 100)) funded_engine))) = 0
   \<and> daily_volume_used (snd (execute_pump_trade (default_config\<lparr>mock_trading := True\<rparr>) calm_world
                      (buy (Some ''TOKEN1'') (1 / 100)) funded_engine)) = 0"
  by (simp add: funded_engine_def calm_world_def new_engine_def buy_def default_config_def
        execute_pump_trade_def check_trade_limits_def get_wallet_balance_def execute_real_trade_def
        mock_trade_def failed_result_def Let_def)

section \<open>The encryption envelope\<close>

lemma key_exchange_length:
  assumes "library_contract L" and "perform_key_exchange_x25519 L priv pub = Inr k"
  shows "length k = 32"
  using assms
  by (auto simp: library_contract_def perform_key_exchange_x25519_def split: option.splits)

lemma encrypt_then_decrypt:
  assumes lib: "library_contract L"
    and key: "length k = 32" and nonce: "length nonce = 12"
    and valid: "utf8_encode L m = Some b"
  shows "\<exists>c n t. encrypt_aes_gcm L nonce m k = Inr (c, n, t) \<and> decrypt_aes_gcm L c n t k = Inr m"
proof -
  from lib key nonce obtain cwt where
    enc: "aesgcm_encrypt L k nonce b = Some cwt" and dec: "aesgcm_decrypt L k nonce cwt = Some b"
    unfolding library_contract_def by blast
  from lib have b64: "\<And>x. b64decode L (b64encode L x) = Some x"
    and utf8: "utf8_decode L b = Some m"
    using valid unfolding library_contract_def by blast+
  let ?n = "length cwt - 16"
  have e: "encrypt_aes_gcm L nonce m k
             = Inr (b64encode L (take ?n cwt), b64encode L nonce, b64encode L (drop ?n cwt))"
    by (simp add: encrypt_aes_gcm_def valid enc Let_def)
  have d: "decrypt_aes_gcm L (b64encode L (take ?n cwt)) (b64encode L nonce) (b64encode L (drop ?n cwt)) k
             = Inr m"
    by (simp add: decrypt_aes_gcm_def b64 dec utf8)
  from e d show ?thesis by blast
qed

text \<open>
  C1. Encryption followed by decryption is the identity. For libraries that keep their
  contract, a key \<open>k\<close> returned by \<open>perform_key_exchange_x25519\<close>, a 12-byte nonce and
  a message \<open>m\<close> that UTF-8 can encode, \<open>encrypt_aes_gcm\<close> returns a triple of
  ciphertext, nonce and tag, and \<open>decrypt_aes_gcm\<close> on that triple under \<open>k\<close> returns
  \<open>m\<close>.
\<close>

theorem encrypt_decrypt_round_trip:
  assumes "library_contract L"
    and "perform_key_exchange_x25519 L priv pub = Inr k"
    and "length nonce = 12"
    and "utf8_encode L m \<noteq> None"
  shows "\<exists>c n t. encrypt_aes_gcm L nonce m k = Inr (c, n, t) \<and> decrypt_aes_gcm L c n t k = Inr m"
proof -
  from assms(4) obtain b where b: "utf8_encode L m = Some b" by auto
  have "length k = 32" using assms(1,2) by (rule key_exchange_length)
  then show ?thesis using encrypt_then_decrypt[OF assms(1) _ assms(3) b] by blast
qed

lemma toy_lib_contract: "library_contract toy_lib"
  by (auto simp: library_contract_def toy_lib_def)

theorem encrypt_decrypt_round_trip_witness:
  "library_contract toy_lib
   \<and> perform_key_exchange_x25519 toy_lib key_p key_a = Inr key_a
   \<and> length ''abcdefghijkl'' = 12
   \<and> utf8_encode toy_lib ''{type: heartbeat_request}'' \<noteq> None
   \<and> (\<exists>c n t. encrypt_aes_gcm toy_lib ''abcdefghijkl'' ''{type: heartbeat_request}'' key_a = Inr (c, n, t)
         \<and> decrypt_aes_gcm toy_lib c n t key_a = Inr ''{type: heartbeat_request}'')"
proof -
  have kx: "perform_key_exchange_x25519 toy_lib key_p key_a = Inr key_a"
    by (simp add: perform_key_exchange_x25519_def toy_lib_def key_p_def key_a_def)
  have n: "length ''abcdefghijkl'' = 12" by simp
  have v: "utf8_encode toy_lib ''{type: heartbeat_request}'' \<noteq> None"
    by (simp add: toy_lib_def)
  show ?thesis
    using encrypt_decrypt_round_trip [OF toy_lib_contract kx n v] toy_lib_contract kx v by simp
qed

section \<open>Sending\<close>

lemma encrypt_message_state:
  "snd (encrypt_message L wd text w) = w
   \<or> (\<exists>err. fst (encrypt_message L wd text w) = Inl err
            \<and> snd (encrypt_message L wd text w) = log_error At_Encrypt err w)"
  by (auto simp: encrypt_message_def split: option.splits sum.splits)

lemma send_message_cases:
  "(\<exists>err logs. send_message cfg L wd m w = (Inl err, w\<lparr>error_log := error_log w @ logs\<rparr>))
   \<or> (\<exists>frame. send_message cfg L wd m w
          = (Inr (), w\<lparr>outbox := outbox w @ [(m, frame)], messages_sent := messages_sent w + 1\<rparr>))"
proof (cases "ws_open w")
  case False
  then have "send_message cfg L wd m w = (Inl Websocket_Closed, w\<lparr>error_log := error_log w @ []\<rparr>)"
    by (simp add: send_message_def)
  then show ?thesis by blast
next
  case opn: True
  show ?thesis
  proof (cases "json_dumps L m")
    case None
    then have "send_message cfg L wd m w
        = (Inl Json_Error, w\<lparr>error_log := error_log w @ [Log_Error At_Send Json_Error]\<rparr>)"
      using opn by (simp add: send_message_def log_error_def)
    then show ?thesis by blast
  next
    case (Some js)
    show ?thesis
    proof (cases "encryption_enabled cfg \<and> truthy (shared_key w)")
      case False
      then have "send_message cfg L wd m w
          = (if send_raises wd
             then (Inl Send_Failed, w\<lparr>error_log := error_log w @ [Log_Error At_Send Send_Failed]\<rparr>)
             else (Inr (), w\<lparr>outbox := outbox w @ [(m, js)], messages_sent := messages_sent w + 1\<rparr>))"
        using opn Some by (auto simp: send_message_def log_error_def)
      then show ?thesis by (cases "send_raises wd") auto
    next
      case True
      show ?thesis
      proof (cases "encrypt_message L wd js w")
        case (Pair r w1)
        show ?thesis
        proof (cases r)
          case (Inl err)
          then have "w1 = log_error At_Encrypt err w"
            using encrypt_message_state[of L wd js w] Pair
            by (auto simp: encrypt_message_def split: option.splits sum.splits)
          then have "send_message cfg L wd m w
            = (Inl err, w\<lparr>error_log := error_log w @ [Log_Error At_Encrypt err, Log_Error At_Send err]\<rparr>)"
            using opn Some True Pair Inl by (simp add: send_message_def log_error_def)
          then show ?thesis by blast
        next
          case (Inr d)
          then have "w1 = w"
            using Pair by (auto simp: encrypt_message_def split: option.splits sum.splits)
          then have "send_message cfg L wd m w
          = (if send_raises wd
             then (Inl Send_Failed, w\<lparr>error_log := error_log w @ [Log_Error At_Send Send_Failed]\<rparr>)
             else (Inr (), w\<lparr>outbox := outbox w @ [(m, json_dumps_encrypted L d)],
                              messages_sent := messages_sent w + 1\<rparr>))"
            using opn Some True Pair Inr by (simp add: send_message_def log_error_def)
          then show ?thesis by (cases "send_raises wd") auto
        qed
      qed
    qed
  qed
qed

section \<open>Connecting\<close>

lemma after_failure_waits:
  "reconnect_attempts w + 1 < max_reconnect_attempts w \<Longrightarrow>
     after_failure cfg delay err w
       = (delay * backoff_factor cfg,
          w\<lparr>reconnect_attempts := reconnect_attempts w + 1,
            error_log := error_log w @ [Log_Error At_Connect err],
            sleeps := sleeps w @ [delay]\<rparr>)"
  by (simp add: after_failure_def log_error_def Let_def)

lemma after_failure_last:
  "\<not> reconnect_attempts w + 1 < max_reconnect_attempts w \<Longrightarrow>
     after_failure cfg delay err w
       = (delay,
          w\<lparr>reconnect_attempts := reconnect_attempts w + 1,
            error_log := error_log w @ [Log_Error At_Connect err]\<rparr>)"
  by (simp add: after_failure_def log_error_def Let_def)

lemma connect_loop_failures:
  assumes "is_running w" and "\<forall>a \<in> set fs. \<not> fst a"
    and "reconnect_attempts w + length fs < max_reconnect_attempts w"
  shows "connect_loop cfg L (fs @ rest) delay w
       = connect_loop cfg L rest (delay * backoff_factor cfg ^ length fs)
           (w\<lparr>reconnect_attempts := reconnect_attempts w + length fs,
              error_log := error_log w @ replicate (length fs) (Log_Error At_Connect Connect_Failed),
              sleeps := sleeps w @ map (\<lambda>i. delay * backoff_factor cfg ^ i) [0..<length fs]\<rparr>)"
  using assms
proof (induction fs arbitrary: delay w)
  case Nil
  then show ?case by simp
next
  case (Cons a fs)
  obtain ok wd where a: "a = (ok, wd)" by (cases a)
  with Cons.prems have nok: "\<not> ok" by simp
  let ?w1 = "w\<lparr>reconnect_attempts := reconnect_attempts w + 1,
            error_log := error_log w @ [Log_Error At_Connect Connect_Failed],
            sleeps := sleeps w @ [delay]\<rparr>"
  have step: "connect_loop cfg L ((a # fs) @ rest) delay w
            = connect_loop cfg L (fs @ rest) (delay * backoff_factor cfg) ?w1"
    using Cons.prems a nok by (simp add: after_failure_waits)
  have ih: "connect_loop cfg L (fs @ rest) (delay * backoff_factor cfg) ?w1
       = connect_loop cfg L rest (delay * backoff_factor cfg * backoff_factor cfg ^ length fs)
           (?w1\<lparr>reconnect_attempts := reconnect_attempts ?w1 + length fs,
              error_log := error_log ?w1 @ replicate (length fs) (Log_Error At_Connect Connect_Failed),
              sleeps := sleeps ?w1 @ map (\<lambda>i. delay * backoff_factor cfg * backoff_factor cfg ^ i) [0..<length fs]\<rparr>)"
    using Cons.prems by (intro Cons.IH) simp_all
  have m: "map (\<lambda>i. delay * backoff_factor cfg ^ i) [0..<length (a # fs)]
         = delay # map (\<lambda>i. delay * backoff_factor cfg * backoff_factor cfg ^ i) [0..<length fs]"
    by (simp add: upt_conv_Cons map_Suc_upt[symmetric] del: upt_Suc)
  show ?case
    unfolding step ih m
    by (simp add: replicate_app_Cons_same mult.assoc)
qed


lemma connect_loop_stops:
  "\<not> (is_running w \<and> reconnect_attempts w < max_reconnect_attempts w) \<Longrightarrow>
     connect_loop cfg L xs delay w = Some (False, w)"
  by (cases xs) auto

lemma connect_loop_last_failure:
  assumes "is_running w" and "reconnect_attempts w < max_reconnect_attempts w"
    and "\<not> reconnect_attempts w + 1 < max_reconnect_attempts w"
  shows "connect_loop cfg L ((False, wd) # rest) delay w
       = Some (False, w\<lparr>reconnect_attempts := reconnect_attempts w + 1,
                          error_log := error_log w @ [Log_Error At_Connect Connect_Failed]\<rparr>)"
  using assms by (simp add: after_failure_last connect_loop_stops)

lemma connect_loop_gives_up:
  assumes run: "is_running w" and lt: "reconnect_attempts w < max_reconnect_attempts w"
    and fails: "\<forall>a \<in> set fs. \<not> fst a"
    and len: "max_reconnect_attempts w - reconnect_attempts w \<le> length fs"
  shows "\<exists>w'. connect_loop cfg L fs delay w = Some (False, w')
           \<and> reconnect_attempts w' = max_reconnect_attempts w
           \<and> sleeps w' = sleeps w @ map (\<lambda>i. delay * backoff_factor cfg ^ i)
                                       [0..<max_reconnect_attempts w - reconnect_attempts w - 1]"
proof -
  let ?n = "max_reconnect_attempts w - reconnect_attempts w - 1"
  let ?w1 = "w\<lparr>reconnect_attempts := reconnect_attempts w + ?n,
              error_log := error_log w @ replicate ?n (Log_Error At_Connect Connect_Failed),
              sleeps := sleeps w @ map (\<lambda>i. delay * backoff_factor cfg ^ i) [0..<?n]\<rparr>"
  from lt len have n: "?n < length fs" by simp
  then obtain a rest where dr: "drop ?n fs = a # rest"
    by (cases "drop ?n fs") auto
  have split: "fs = take ?n fs @ a # rest"
    using dr by (metis append_take_drop_id)
  have "a \<in> set fs" using split by (metis in_set_conv_decomp)
  then have na: "\<not> fst a" using fails by simp
  obtain ok wd where a: "a = (ok, wd)" by (cases a)
  have pre: "connect_loop cfg L (take ?n fs @ a # rest) delay w
           = connect_loop cfg L (a # rest) (delay * backoff_factor cfg ^ length (take ?n fs))
               (w\<lparr>reconnect_attempts := reconnect_attempts w + length (take ?n fs),
                  error_log := error_log w @ replicate (length (take ?n fs)) (Log_Error At_Connect Connect_Failed),
                  sleeps := sleeps w @ map (\<lambda>i. delay * backoff_factor cfg ^ i) [0..<length (take ?n fs)]\<rparr>)"
  proof (rule connect_loop_failures)
    show "is_running w" by (rule run)
    show "\<forall>a\<in>set (take ?n fs). \<not> fst a" using fails by (meson in_set_takeD)
    show "reconnect_attempts w + length (take ?n fs) < max_reconnect_attempts w"
      using lt n by simp
  qed
  have lt': "length (take ?n fs) = ?n" using n by simp
  have last: "connect_loop cfg L (a # rest) (delay * backoff_factor cfg ^ ?n) ?w1
            = Some (False, ?w1\<lparr>reconnect_attempts := reconnect_attempts ?w1 + 1,
                                error_log := error_log ?w1 @ [Log_Error At_Connect Connect_Failed]\<rparr>)"
  proof -
    have cond: "is_running ?w1" "reconnect_attempts ?w1 < max_reconnect_attempts ?w1"
      using run lt by simp_all
    have nl: "\<not> reconnect_attempts ?w1 + 1 < max_reconnect_attempts ?w1"
      using lt by simp
    have "a = (False, wd)" using na a by simp
    then show ?thesis
      using connect_loop_last_failure[OF cond nl] by blast
  qed
  have "connect_loop cfg L fs delay w
        = Some (False, ?w1\<lparr>reconnect_attempts := reconnect_attempts ?w1 + 1,
                                error_log := error_log ?w1 @ [Log_Error At_Connect Connect_Failed]\<rparr>)"
    using pre last lt' split by metis
  then show ?thesis using lt by simp
qed


lemma connect_loop_success:
  assumes run: "is_running w" and lt: "reconnect_attempts w < max_reconnect_attempts w"
    and reg: "fst (send_registration cfg L wd (w\<lparr>ws_open := True, reconnect_attempts := 0\<rparr>)) = Inr ()"
  shows "\<exists>w'. connect_loop cfg L ((True, wd) # rest) delay w = Some (True, w')
           \<and> reconnect_attempts w' = 0 \<and> ws_open w' \<and> sleeps w' = sleeps w"
proof -
  let ?w0 = "w\<lparr>ws_open := True, reconnect_attempts := 0\<rparr>"
  obtain frame where sent: "send_message cfg L wd Register ?w0
      = (Inr (), ?w0\<lparr>outbox := outbox ?w0 @ [(Register, frame)], messages_sent := messages_sent ?w0 + 1\<rparr>)"
    using send_message_cases[of cfg L wd Register ?w0] reg
    by (auto simp: send_registration_def)
  then have "connect_loop cfg L ((True, wd) # rest) delay w
      = Some (True, ?w0\<lparr>outbox := outbox ?w0 @ [(Register, frame)], messages_sent := messages_sent ?w0 + 1\<rparr>)"
    using run lt by (simp add: send_registration_def)
  then show ?thesis by simp
qed


text \<open>
  Passes of \<open>connect_to_coordinator\<close> that fail in \<open>websockets.connect\<close>. With
  \<open>retry_delay\<close> 1 and \<open>backoff_factor\<close> 2, three such passes in a row (the limit not
  yet reached) are followed by waits of 1, 2 and 4 seconds, and the loop goes on with a
  delay of 8. When every pass fails in this way, the loop returns \<open>False\<close> once the
  counter reaches \<open>max_reconnect_attempts\<close>, each wait being the previous one times the
  backoff factor and the last failure being followed by no wait. A pass that connects
  and registers returns \<open>True\<close> with the counter at 0.
\<close>

theorem reconnect_backoff:
  "(retry_delay cfg = 1 \<and> backoff_factor cfg = 2 \<and> is_running w
      \<and> reconnect_attempts w + 3 < max_reconnect_attempts w \<longrightarrow>
      connect_to_coordinator cfg L ((False, wd1) # (False, wd2) # (False, wd3) # rest) w
        = connect_loop cfg L rest 8
            (w\<lparr>reconnect_attempts := reconnect_attempts w + 3,
               error_log := error_log w @ replicate 3 (Log_Error At_Connect Connect_Failed),
               sleeps := sleeps w @ [1, 2, 4]\<rparr>))
   \<and> (is_running w \<and> reconnect_attempts w < max_reconnect_attempts w
      \<and> (\<forall>a \<in> set fs. \<not> fst a)
      \<and> max_reconnect_attempts w - reconnect_attempts w \<le> length fs \<longrightarrow>
      (\<exists>w'. connect_to_coordinator cfg L fs w = Some (False, w')
          \<and> reconnect_attempts w' = max_reconnect_attempts w
          \<and> sleeps w' = sleeps w @ map (\<lambda>i. retry_delay cfg * backoff_factor cfg ^ i)
                                      [0..<max_reconnect_attempts w - reconnect_attempts w - 1]))
   \<and> (is_running w \<and> reconnect_attempts w < max_reconnect_attempts w
      \<and> fst (send_registration cfg L wd (w\<lparr>ws_open := True, reconnect_attempts := 0\<rparr>)) = Inr () \<longrightarrow>
      (\<exists>w'. connect_loop cfg L ((True, wd) # rest) delay w = Some (True, w')
          \<and> reconnect_attempts w' = 0 \<and> ws_open w' \<and> sleeps w' = sleeps w))"
proof -
  have three: "retry_delay cfg = 1 \<and> backoff_factor cfg = 2 \<and> is_running w
      \<and> reconnect_attempts w + 3 < max_reconnect_attempts w \<longrightarrow>
      connect_to_coordinator cfg L ((False, wd1) # (False, wd2) # (False, wd3) # rest) w
        = connect_loop cfg L rest 8
            (w\<lparr>reconnect_attempts := reconnect_attempts w + 3,
               error_log := error_log w @ replicate 3 (Log_Error At_Connect Connect_Failed),
               sleeps := sleeps w @ [1, 2, 4]\<rparr>)"
  proof
    assume h: "retry_delay cfg = 1 \<and> backoff_factor cfg = 2 \<and> is_running w
      \<and> reconnect_attempts w + 3 < max_reconnect_attempts w"
    let ?fs = "[(False, wd1), (False, wd2), (False, wd3)]"
    have run: "is_running w" using h by simp
    have f: "\<forall>a \<in> set ?fs. \<not> fst a" by simp
    have len: "length ?fs = 3" by simp
    have lt: "reconnect_attempts w + length ?fs < max_reconnect_attempts w" using h by simp
    note st = connect_loop_failures[OF run f lt, of cfg L rest "retry_delay cfg", unfolded len]
    have m: "map (\<lambda>i. retry_delay cfg * backoff_factor cfg ^ i) [0..<3] = [1, 2, 4]"
      using h by (simp add: upt_rec)
    have p: "retry_delay cfg * backoff_factor cfg ^ 3 = 8"
      using h by simp
    have app: "(False, wd1) # (False, wd2) # (False, wd3) # rest = ?fs @ rest" by simp
    show "connect_to_coordinator cfg L ((False, wd1) # (False, wd2) # (False, wd3) # rest) w
        = connect_loop cfg L rest 8
            (w\<lparr>reconnect_attempts := reconnect_attempts w + 3,
               error_log := error_log w @ replicate 3 (Log_Error At_Connect Connect_Failed),
               sleeps := sleeps w @ [1, 2, 4]\<rparr>)"
      unfolding connect_to_coordinator_def app st m p ..
  qed
  have stop: "is_running w \<and> reconnect_attempts w < max_reconnect_attempts w
      \<and> (\<forall>a \<in> set fs. \<not> fst a)
      \<and> max_reconnect_attempts w - reconnect_attempts w \<le> length fs \<longrightarrow>
      (\<exists>w'. connect_to_coordinator cfg L fs w = Some (False, w')
          \<and> reconnect_attempts w' = max_reconnect_attempts w
          \<and> sleeps w' = sleeps w @ map (\<lambda>i. retry_delay cfg * backoff_factor cfg ^ i)
                                      [0..<max_reconnect_attempts w - reconnect_attempts w - 1])"
    unfolding connect_to_coordinator_def using connect_loop_gives_up[of w fs cfg L "retry_delay cfg"] by blast
  have reset: "is_running w \<and> reconnect_attempts w < max_reconnect_attempts w
      \<and> fst (send_registration cfg L wd (w\<lparr>ws_open := True, reconnect_attempts := 0\<rparr>)) = Inr () \<longrightarrow>
      (\<exists>w'. connect_loop cfg L ((True, wd) # rest) delay w = Some (True, w')
          \<and> reconnect_attempts w' = 0 \<and> ws_open w' \<and> sleeps w' = sleeps w)"
    using connect_loop_success[of w cfg L wd rest delay] by blast
  from three stop reset show ?thesis by blast
qed

lemma running_worker_connects:
  "fst (send_registration default_config toy_lib calm_world
          (running_worker\<lparr>ws_open := True, reconnect_attempts := 0\<rparr>)) = Inr ()"
  by (simp add: send_registration_def send_message_def running_worker_def new_worker_def
        toy_lib_def default_config_def calm_world_def)

theorem reconnect_backoff_witness:
  "retry_delay default_config = 1 \<and> backoff_factor default_config = 2
   \<and> is_running running_worker
   \<and> reconnect_attempts running_worker + 3 < max_reconnect_attempts running_worker
   \<and> max_reconnect_attempts running_worker - reconnect_attempts running_worker
        \<le> length (replicate 10 (False, calm_world))
   \<and> fst (send_registration default_config toy_lib calm_world
             (running_worker\<lparr>ws_open := True, reconnect_attempts := 0\<rparr>)) = Inr ()
   \<and> (\<exists>w'. connect_to_coordinator default_config toy_lib
              [(False, calm_world), (False, calm_world), (False, calm_world), (True, calm_world)]
              running_worker = Some (True, w')
          \<and> reconnect_attempts w' = 0 \<and> sleeps w' = [1, 2, 4])
   \<and> (\<exists>w'. connect_to_coordinator default_config toy_lib (replicate 10 (False, calm_world))
              running_worker = Some (False, w')
          \<and> reconnect_attempts w' = 10
          \<and> sleeps w' = [1, 2, 4, 8, 16, 32, 64, 128, 256])"
proof -
  let ?w3 = "running_worker\<lparr>reconnect_attempts := reconnect_attempts running_worker + 3,
               error_log := error_log running_worker @ replicate 3 (Log_Error At_Connect Connect_Failed),
               sleeps := sleeps running_worker @ [1, 2, 4]\<rparr>"
  have cfg: "retry_delay default_config = 1 \<and> backoff_factor default_config = 2"
    by (simp add: default_config_def)
  have w: "is_running running_worker"
    "reconnect_attempts running_worker = 0" "max_reconnect_attempts running_worker = 10"
    "sleeps running_worker = []"
    by (simp_all add: running_worker_def new_worker_def)
  have reg3: "fst (send_registration default_config toy_lib calm_world
             (?w3\<lparr>ws_open := True, reconnect_attempts := 0\<rparr>)) = Inr ()"
    by (simp add: send_registration_def send_message_def running_worker_def new_worker_def
        toy_lib_def default_config_def calm_world_def)
  note t1 = reconnect_backoff [where cfg = default_config and w = running_worker and L = toy_lib
              and ?wd1.0 = calm_world and ?wd2.0 = calm_world and ?wd3.0 = calm_world
              and rest = "[(True, calm_world)]" and fs = "replicate 10 (False, calm_world)"]
  note t2 = reconnect_backoff [where cfg = default_config and w = ?w3 and L = toy_lib
              and wd = calm_world and rest = "[]" and delay = 8 and fs = "[]"]
  have first: "connect_to_coordinator default_config toy_lib
              [(False, calm_world), (False, calm_world), (False, calm_world), (True, calm_world)]
              running_worker = connect_loop default_config toy_lib [(True, calm_world)] 8 ?w3"
    using t1 cfg w by simp
  have second: "\<exists>w'. connect_loop default_config toy_lib [(True, calm_world)] 8 ?w3 = Some (True, w')
          \<and> reconnect_attempts w' = 0 \<and> ws_open w' \<and> sleeps w' = sleeps ?w3"
    using t2 reg3 w by simp
  have third: "\<exists>w'. connect_to_coordinator default_config toy_lib (replicate 10 (False, calm_world))
              running_worker = Some (False, w')
          \<and> reconnect_attempts w' = 10
          \<and> sleeps w' = [1, 2, 4, 8, 16, 32, 64, 128, 256]"
    using t1 cfg w by (simp add: upt_rec)
  show ?thesis
    using first second third cfg w running_worker_connects by auto
qed





section \<open>Dispatch\<close>

lemma send_message_frame:
  "is_running (snd (send_message cfg L wd m w)) = is_running w
   \<and> ws_open (snd (send_message cfg L wd m w)) = ws_open w
   \<and> worker_private_key (snd (send_message cfg L wd m w)) = worker_private_key w
   \<and> coordinator_public_key (snd (send_message cfg L wd m w)) = coordinator_public_key w
   \<and> shared_key (snd (send_message cfg L wd m w)) = shared_key w
   \<and> wallets (snd (send_message cfg L wd m w)) = wallets w
   \<and> trading_engine (snd (send_message cfg L wd m w)) = trading_engine w"
  using send_message_cases[of cfg L wd m w] by auto

lemma send_message_outbox:
  "(fst (send_message cfg L wd m w) \<noteq> Inr () \<and> outbox (snd (send_message cfg L wd m w)) = outbox w)
   \<or> (fst (send_message cfg L wd m w) = Inr ()
       \<and> (\<exists>frame. outbox (snd (send_message cfg L wd m w)) = outbox w @ [(m, frame)]))"
  using send_message_cases[of cfg L wd m w] by auto

lemma log_error_frame [simp]:
  "is_running (log_error s err w) = is_running w"
  "ws_open (log_error s err w) = ws_open w"
  "worker_private_key (log_error s err w) = worker_private_key w"
  "coordinator_public_key (log_error s err w) = coordinator_public_key w"
  "shared_key (log_error s err w) = shared_key w"
  "wallets (log_error s err w) = wallets w"
  "trading_engine (log_error s err w) = trading_engine w"
  "outbox (log_error s err w) = outbox w"
  "error_log (log_error s err w) = error_log w @ [Log_Error s err]"
  by (simp_all add: log_error_def)

lemma wallet_assignment_without_key:
  "\<not> truthy (shared_key w) \<Longrightarrow>
     handle_wallet_assignment cfg L wd i k w
       = (Inr (), log_error At_Wallet Encryption_Not_Initialized w)"
  by (cases "shared_key w") (simp_all add: handle_wallet_assignment_def)

lemma process_plain:
  "json_loads L raw = Some m \<Longrightarrow> (\<forall>d. m \<noteq> Encrypted d) \<Longrightarrow>
     process_body cfg L wd raw w
       = dispatch cfg L wd m (w\<lparr>messages_received := messages_received w + 1\<rparr>)"
  by (cases m) (simp_all add: process_body_def)

lemma process_never_raises: "fst (process_message cfg L wd raw w) = Inr ()"
  by (simp add: process_message_def split: prod.splits sum.splits)

lemma decrypt_without_key:
  "shared_key w = None \<Longrightarrow> \<exists>err. decrypt_message L d w = (Inl err, log_error At_Decrypt err w)"
  by (auto simp: decrypt_message_def split: list.splits)

text \<open>
  C9. A \<open>wallet_assignment\<close> that arrives while no session key is set fails
  gracefully. The handler raises inside its own \<open>try\<close>, logs the error and returns;
  \<open>_process_message\<close> returns normally, the wallet mapping and the list of sent
  messages are unchanged (no \<open>wallet_assigned\<close> goes out), and the log gains the
  handler's error line. The same holds when the frame arrives encrypted: without a key it
  cannot be decrypted, and nothing is stored or sent.
\<close>

theorem wallet_assignment_before_session_key:
  assumes "\<not> truthy (shared_key w)"
  shows "handle_wallet_assignment cfg L wd i k w
           = (Inr (), log_error At_Wallet Encryption_Not_Initialized w)
       \<and> (json_loads L raw = Some (Wallet_Assignment i k) \<longrightarrow>
            process_message cfg L wd raw w
              = (Inr (), log_error At_Wallet Encryption_Not_Initialized
                           (w\<lparr>messages_received := messages_received w + 1\<rparr>))
          \<and> wallets (snd (process_message cfg L wd raw w)) = wallets w
          \<and> outbox (snd (process_message cfg L wd raw w)) = outbox w
          \<and> error_log (snd (process_message cfg L wd raw w))
              = error_log w @ [Log_Error At_Wallet Encryption_Not_Initialized])
       \<and> (shared_key w = None \<and> json_loads L raw = Some (Encrypted d) \<longrightarrow>
            fst (process_message cfg L wd raw w) = Inr ()
          \<and> wallets (snd (process_message cfg L wd raw w)) = wallets w
          \<and> outbox (snd (process_message cfg L wd raw w)) = outbox w)"
proof -
  let ?w1 = "w\<lparr>messages_received := messages_received w + 1\<rparr>"
  have h: "handle_wallet_assignment cfg L wd i k w
           = (Inr (), log_error At_Wallet Encryption_Not_Initialized w)"
    using assms by (rule wallet_assignment_without_key)
  have plain: "json_loads L raw = Some (Wallet_Assignment i k) \<longrightarrow>
            process_message cfg L wd raw w
              = (Inr (), log_error At_Wallet Encryption_Not_Initialized ?w1)"
  proof
    assume j: "json_loads L raw = Some (Wallet_Assignment i k)"
    have "\<not> truthy (shared_key ?w1)" using assms by simp
    then have "process_body cfg L wd raw w
        = (Inr (), log_error At_Wallet Encryption_Not_Initialized ?w1)"
      using process_plain[OF j, of cfg wd w] by (simp add: wallet_assignment_without_key)
    then show "process_message cfg L wd raw w
              = (Inr (), log_error At_Wallet Encryption_Not_Initialized ?w1)"
      by (simp add: process_message_def)
  qed
  have enc: "shared_key w = None \<and> json_loads L raw = Some (Encrypted d) \<longrightarrow>
            fst (process_message cfg L wd raw w) = Inr ()
          \<and> wallets (snd (process_message cfg L wd raw w)) = wallets w
          \<and> outbox (snd (process_message cfg L wd raw w)) = outbox w"
  proof
    assume a: "shared_key w = None \<and> json_loads L raw = Some (Encrypted d)"
    show "fst (process_message cfg L wd raw w) = Inr ()
          \<and> wallets (snd (process_message cfg L wd raw w)) = wallets w
          \<and> outbox (snd (process_message cfg L wd raw w)) = outbox w"
    proof (cases d)
      case None
      with a show ?thesis by (simp add: process_message_def process_body_def)
    next
      case (Some data)
      from a have "shared_key ?w1 = None" by simp
      then obtain err where "decrypt_message L data ?w1 = (Inl err, log_error At_Decrypt err ?w1)"
        using decrypt_without_key by blast
      with a Some show ?thesis by (simp add: process_message_def process_body_def)
    qed
  qed
  from h plain enc show ?thesis by simp
qed

theorem wallet_assignment_before_session_key_witness:
  "\<not> truthy (shared_key connected_worker)
   \<and> json_loads toy_lib ''wallet'' = Some (Wallet_Assignment (Some 0) (Some ''c:n:t''))
   \<and> fst (process_message default_config toy_lib calm_world ''wallet'' connected_worker) = Inr ()
   \<and> wallets (snd (process_message default_config toy_lib calm_world ''wallet'' connected_worker)) (Some 0) = None
   \<and> outbox (snd (process_message default_config toy_lib calm_world ''wallet'' connected_worker)) = []
   \<and> error_log (snd (process_message default_config toy_lib calm_world ''wallet'' connected_worker))
       = [Log_Error At_Wallet Encryption_Not_Initialized]"
proof -
  have k: "\<not> truthy (shared_key connected_worker)"
    by (simp add: connected_worker_def new_worker_def)
  have j: "json_loads toy_lib ''wallet'' = Some (Wallet_Assignment (Some 0) (Some ''c:n:t''))"
    by (simp add: toy_lib_def toy_json_loads_def)
  have w: "wallets connected_worker = (\<lambda>i. None)" "outbox connected_worker = []"
    "error_log connected_worker = []"
    by (simp_all add: connected_worker_def new_worker_def)
  show ?thesis
    using wallet_assignment_before_session_key [OF k, of default_config toy_lib calm_world "Some 0"
        "Some ''c:n:t''" "''wallet''" None] k j w
    by simp
qed

section \<open>The session key\<close>

lemma key_consistent_keys:
  "session_keys w' = session_keys w \<Longrightarrow> key_consistent L w' = key_consistent L w"
  by (auto simp: session_keys_def key_consistent_def split: option.splits)

lemma key_consistent_log [simp]:
  "key_consistent L (w\<lparr>error_log := l\<rparr>) = key_consistent L w"
  by (rule key_consistent_keys) (simp add: session_keys_def)

lemma send_message_keys: "session_keys (snd (send_message cfg L wd m w)) = session_keys w"
  using send_message_frame[of cfg L wd m w] by (simp add: session_keys_def)

lemma send_message_keysD:
  "send_message cfg L wd m w = (r, w') \<Longrightarrow> session_keys w' = session_keys w"
  using send_message_keys[of cfg L wd m w] by simp

lemma log_error_keys [simp]: "session_keys (log_error s err w) = session_keys w"
  by (simp add: session_keys_def)

lemma session_keys_updates [simp]:
  "session_keys (w\<lparr>messages_received := n\<rparr>) = session_keys w"
  "session_keys (w\<lparr>trades_executed := t\<rparr>) = session_keys w"
  "session_keys (w\<lparr>trading_engine := e\<rparr>) = session_keys w"
  "session_keys (w\<lparr>wallets := ws\<rparr>) = session_keys w"
  "session_keys (w\<lparr>error_log := l\<rparr>) = session_keys w"
  by (simp_all add: session_keys_def)

lemma pump_command_keys:
  "session_keys (snd (handle_pump_command cfg L wd c w)) = session_keys w"
  by (auto simp: handle_pump_command_def send_message_keys split: option.splits prod.splits sum.splits
           dest!: send_message_keysD)

lemma wallet_assignment_keys:
  "session_keys (snd (handle_wallet_assignment cfg L wd i k w)) = session_keys w"
  by (auto simp: handle_wallet_assignment_def split: option.splits prod.splits sum.splits
           dest!: send_message_keysD)

lemma registration_error_keys:
  "session_keys (snd (handle_registration_error w)) = session_keys w"
  by (simp add: handle_registration_error_def shutdown_def session_keys_def)

lemma initialize_encryption_consistent:
  "key_consistent L w \<Longrightarrow> key_consistent L (snd (initialize_encryption cfg L w))"
  by (auto simp: initialize_encryption_def key_consistent_def split: option.splits sum.splits)

lemma registration_known_key:
  "truthy (coordinator_public_key w) \<Longrightarrow> handle_registration_success cfg L k w = (Inr (), w)"
  by (simp add: handle_registration_success_def)

lemma registration_first_key:
  assumes "\<not> truthy (coordinator_public_key w)" and "pub \<noteq> []" and "encryption_enabled cfg"
    and "worker_private_key w = Some priv" and "priv \<noteq> []"
    and "perform_key_exchange_x25519 L priv pub = Inr key"
  shows "handle_registration_success cfg L (Some pub) w
           = (Inr (), w\<lparr>coordinator_public_key := Some pub, shared_key := Some key\<rparr>)"
  using assms by (simp add: handle_registration_success_def initialize_encryption_def)

lemma registration_success_consistent:
  assumes "key_consistent L w"
  shows "key_consistent L (snd (handle_registration_success cfg L k w))"
proof (cases "truthy k \<and> \<not> truthy (coordinator_public_key w)")
  case False
  then show ?thesis using assms by (auto simp: handle_registration_success_def)
next
  case True
  then have "shared_key w = None"
    using assms by (cases "shared_key w") (auto simp: key_consistent_def split: option.splits)
  then have "key_consistent L (w\<lparr>coordinator_public_key := k\<rparr>)"
    by (simp add: key_consistent_def)
  then show ?thesis
    using True by (simp add: handle_registration_success_def initialize_encryption_consistent)
qed

lemma dispatch_consistent:
  assumes "key_consistent L w"
  shows "key_consistent L (snd (dispatch cfg L wd m w))"
proof (cases m)
  case (Registration_Success k)
  then show ?thesis using assms by (simp add: registration_success_consistent)
next
  case (Pump_Command c)
  then show ?thesis using assms key_consistent_keys[OF pump_command_keys] by simp
next
  case (Wallet_Assignment i k)
  then show ?thesis using assms key_consistent_keys[OF wallet_assignment_keys] by simp
next
  case Registration_Error
  then show ?thesis using assms key_consistent_keys[OF registration_error_keys] by simp
next
  case Heartbeat_Request
  then show ?thesis using assms key_consistent_keys[OF send_message_keys]
    by (simp add: handle_heartbeat_request_def)
next
  case Status_Request
  then show ?thesis using assms key_consistent_keys[OF send_message_keys]
    by (simp add: handle_status_request_def)
qed (use assms in \<open>simp_all\<close>)

lemma decrypt_message_keys: "session_keys (snd (decrypt_message L d w)) = session_keys w"
  by (auto simp: decrypt_message_def split: list.splits option.splits sum.splits)

lemma process_body_consistent:
  assumes "key_consistent L w"
  shows "key_consistent L (snd (process_body cfg L wd raw w))"
proof (cases "json_loads L raw")
  case None
  then show ?thesis using assms by (simp add: process_body_def)
next
  case (Some m)
  let ?w1 = "w\<lparr>messages_received := messages_received w + 1\<rparr>"
  have w1: "key_consistent L ?w1"
    using assms key_consistent_keys[of ?w1 w L] by simp
  show ?thesis
  proof (cases "\<exists>d. m = Encrypted d")
    case False
    then show ?thesis using process_plain[OF Some, of cfg wd w] w1 by (simp add: dispatch_consistent)
  next
    case True
    then obtain d where m: "m = Encrypted d" by blast
    show ?thesis
    proof (cases d)
      case None
      then show ?thesis using Some m w1 by (simp add: process_body_def)
    next
      case (Some data)
      obtain r w2 where dm: "decrypt_message L data ?w1 = (r, w2)" by (cases "decrypt_message L data ?w1")
      have w2: "key_consistent L w2"
        using decrypt_message_keys[of L data ?w1] dm w1 key_consistent_keys[of w2 ?w1 L] by simp
      show ?thesis
      proof (cases r)
        case (Inl err)
        then show ?thesis using \<open>json_loads L raw = Some m\<close> m Some dm w2 by (simp add: process_body_def)
      next
        case (Inr plain)
        then show ?thesis using \<open>json_loads L raw = Some m\<close> m Some dm w2
          by (cases "json_loads L plain") (simp_all add: process_body_def dispatch_consistent)
      qed
    qed
  qed
qed

lemma process_message_consistent:
  assumes "key_consistent L w"
  shows "key_consistent L (snd (process_message cfg L wd raw w))"
proof (cases "process_body cfg L wd raw w")
  case (Pair r w1)
  then have "key_consistent L w1" using process_body_consistent[OF assms, of cfg wd raw] by simp
  then show ?thesis using Pair key_consistent_keys[of "log_error At_Process e w1" w1 L for e]
    by (cases r) (simp_all add: process_message_def)
qed


text \<open>
  C8, as amended. The session key, once set, is the key derived from the worker's
  private key and the coordinator public key the worker holds: this holds for a new
  worker and is kept by \<open>_initialize_encryption\<close> and by every processed message. A
  \<open>registration_success\<close> message changes key material only when the worker holds no
  coordinator public key yet: it then stores the key the message carries and, with
  encryption enabled and a private key configured, derives the session key from it. When
  a coordinator public key is already held the handler changes nothing.
\<close>

theorem session_key_derivation:
  "key_consistent L (new_worker priv0 pub0)
   \<and> (key_consistent L w \<longrightarrow>
        key_consistent L (snd (initialize_encryption cfg L w))
      \<and> key_consistent L (snd (process_message cfg L wd raw w)))
   \<and> (truthy (coordinator_public_key w) \<longrightarrow>
        handle_registration_success cfg L k w = (Inr (), w))
   \<and> (\<not> truthy (coordinator_public_key w) \<and> pub \<noteq> [] \<and> encryption_enabled cfg
        \<and> worker_private_key w = Some priv \<and> priv \<noteq> []
        \<and> perform_key_exchange_x25519 L priv pub = Inr key \<longrightarrow>
        handle_registration_success cfg L (Some pub) w
          = (Inr (), w\<lparr>coordinator_public_key := Some pub, shared_key := Some key\<rparr>))"
proof -
  have init: "key_consistent L (new_worker priv0 pub0)"
    by (simp add: key_consistent_def new_worker_def)
  have inv: "key_consistent L w \<longrightarrow>
        key_consistent L (snd (initialize_encryption cfg L w))
      \<and> key_consistent L (snd (process_message cfg L wd raw w))"
    by (simp add: initialize_encryption_consistent process_message_consistent)
  have known: "truthy (coordinator_public_key w) \<longrightarrow>
        handle_registration_success cfg L k w = (Inr (), w)"
    by (simp add: registration_known_key)
  have first: "\<not> truthy (coordinator_public_key w) \<and> pub \<noteq> [] \<and> encryption_enabled cfg
        \<and> worker_private_key w = Some priv \<and> priv \<noteq> []
        \<and> perform_key_exchange_x25519 L priv pub = Inr key \<longrightarrow>
        handle_registration_success cfg L (Some pub) w
          = (Inr (), w\<lparr>coordinator_public_key := Some pub, shared_key := Some key\<rparr>)"
    using registration_first_key[of w pub cfg priv L key] by blast
  from init inv known first show ?thesis by blast
qed

lemma toy_exchange:
  "perform_key_exchange_x25519 toy_lib key_p key_a = Inr key_a"
  "perform_key_exchange_x25519 toy_lib key_p key_b = Inr key_b"
  by (simp_all add: perform_key_exchange_x25519_def toy_lib_def key_p_def key_a_def key_b_def)

theorem session_key_derivation_witness:
  "key_consistent toy_lib connected_worker
   \<and> \<not> truthy (coordinator_public_key connected_worker) \<and> key_b \<noteq> []
   \<and> encryption_enabled default_config
   \<and> worker_private_key connected_worker = Some key_p \<and> key_p \<noteq> []
   \<and> perform_key_exchange_x25519 toy_lib key_p key_b = Inr key_b
   \<and> shared_key (snd (handle_registration_success default_config toy_lib (Some key_b) connected_worker))
       = Some key_b
   \<and> key_consistent toy_lib (snd (process_message default_config toy_lib calm_world ''new_key'' connected_worker))
   \<and> truthy (coordinator_public_key keyed_worker)
   \<and> handle_registration_success default_config toy_lib (Some key_b) keyed_worker = (Inr (), keyed_worker)"
proof -
  have c: "key_consistent toy_lib connected_worker"
    by (simp add: key_consistent_def connected_worker_def new_worker_def)
  have w: "\<not> truthy (coordinator_public_key connected_worker)"
    "worker_private_key connected_worker = Some key_p" "key_p \<noteq> []" "key_b \<noteq> []"
    "encryption_enabled default_config" "truthy (coordinator_public_key keyed_worker)"
    by (simp_all add: connected_worker_def keyed_worker_def new_worker_def key_p_def key_b_def
          key_a_def default_config_def)
  note t1 = session_key_derivation [where L = toy_lib and w = connected_worker and cfg = default_config
      and wd = calm_world and raw = "''new_key''" and pub = key_b and priv = key_p and key = key_b]
  note t2 = session_key_derivation [where L = toy_lib and w = keyed_worker and cfg = default_config
      and k = "Some key_b"]
  show ?thesis using t1 t2 c w toy_exchange(2) by simp
qed

text \<open>
  C8, as stated, fails: a worker that holds the coordinator key \<open>key_a\<close> and its session
  key receives a \<open>registration_success\<close> carrying the different key \<open>key_b\<close>, and
  keeps both the old coordinator key and the old session key.
\<close>

theorem registration_key_not_rederived:
  "coordinator_public_key keyed_worker = Some key_a
   \<and> shared_key keyed_worker = Some key_a
   \<and> perform_key_exchange_x25519 toy_lib key_p key_a = Inr key_a
   \<and> json_loads toy_lib ''new_key'' = Some (Registration_Success (Some key_b))
   \<and> perform_key_exchange_x25519 toy_lib key_p key_b = Inr key_b
   \<and> key_b \<noteq> key_a
   \<and> coordinator_public_key (snd (process_message default_config toy_lib calm_world ''new_key'' keyed_worker))
       = Some key_a
   \<and> shared_key (snd (process_message default_config toy_lib calm_world ''new_key'' keyed_worker))
       = Some key_a"
proof -
  have j: "json_loads toy_lib ''new_key'' = Some (Registration_Success (Some key_b))"
    by (simp add: toy_lib_def toy_json_loads_def)
  have k: "coordinator_public_key keyed_worker = Some key_a" "shared_key keyed_worker = Some key_a"
    "key_b \<noteq> key_a"
    by (simp_all add: keyed_worker_def key_a_def key_b_def)
  have "truthy (coordinator_public_key (keyed_worker\<lparr>messages_received := messages_received keyed_worker + 1\<rparr>))"
    by (simp add: keyed_worker_def key_a_def)
  then have "process_message default_config toy_lib calm_world ''new_key'' keyed_worker
      = (Inr (), keyed_worker\<lparr>messages_received := messages_received keyed_worker + 1\<rparr>)"
    using process_plain[OF j, of default_config calm_world keyed_worker]
    by (simp add: process_message_def registration_known_key)
  then show ?thesis using j k toy_exchange by simp
qed

section \<open>Trade commands\<close>

lemma send_message_outboxD:
  "send_message cfg L wd m w = (r, w') \<Longrightarrow>
     ((\<exists>err. r = Inl err) \<and> outbox w' = outbox w)
   \<or> (r = Inr () \<and> (\<exists>frame. outbox w' = outbox w @ [(m, frame)]))"
  using send_message_cases[of cfg L wd m w] by auto

lemma send_message_frameD:
  "send_message cfg L wd m w = (r, w') \<Longrightarrow>
     is_running w' = is_running w \<and> ws_open w' = ws_open w
   \<and> trading_engine w' = trading_engine w \<and> wallets w' = wallets w"
  using send_message_frame[of cfg L wd m w] by simp

lemma execute_validation_error:
  assumes rej: "error_message (fst (execute_pump_trade cfg wd c e)) = Some err"
    and val: "is_validation_error err"
  shows "\<not> success (fst (execute_pump_trade cfg wd c e))
       \<and> filter is_trade_call (gateway_calls (snd (execute_pump_trade cfg wd c e)))
           = filter is_trade_call (gateway_calls e)"
proof (cases "check_trade_limits cfg wd (requested_amount c e) e")
  case (Pair r e1)
  show ?thesis
  proof (cases r)
    case (Inl lerr)
    then have "fst (check_trade_limits cfg wd (requested_amount c e) e) = Inl lerr"
      using Pair by simp
    then show ?thesis using execute_rejected(1,2) by blast
  next
    case (Inr u)
    consider (none) "cmd_token_address c = None \<or> cmd_token_address c = Some []"
      | (nowallet) token where "cmd_token_address c = Some token" "token \<noteq> []" "trading_keypair e = None"
      | (checked) token kp where "cmd_token_address c = Some token" "token \<noteq> []" "trading_keypair e = Some kp"
      by (cases "cmd_token_address c"; cases "trading_keypair e") auto
    then show ?thesis
    proof cases
      case none then show ?thesis by (simp add: execute_no_token failed_result_def)
    next
      case nowallet then show ?thesis by (simp add: execute_no_wallet failed_result_def)
    next
      case checked
      then show ?thesis using Pair Inr rej val
        by (auto simp: execute_limits_ok mock_trade_def failed_result_def Let_def split: sum.splits if_splits)
    qed
  qed
qed

lemma pump_command_with_engine:
  assumes "trading_engine w = Some e"
  shows "handle_pump_command cfg L wd c w
       = (case send_message cfg L wd (Pump_Result (cmd_command_id c) (fst (execute_pump_trade cfg wd c e)))
                 (w\<lparr>trading_engine := Some (snd (execute_pump_trade cfg wd c e))\<rparr>) of
            (Inr u, w1) \<Rightarrow> (Inr (), w1\<lparr>trades_executed := trades_executed w1 + 1\<rparr>)
          | (Inl err, w1) \<Rightarrow>
              send_message cfg L wd (Pump_Error (cmd_command_id c) err) (log_error At_Pump err w1))"
  using assms
  by (simp add: handle_pump_command_def split: prod.splits sum.splits)

lemma pump_command_without_engine:
  assumes "trading_engine w = None"
  shows "handle_pump_command cfg L wd c w
       = send_message cfg L wd (Pump_Error (cmd_command_id c) Engine_Not_Initialized)
           (log_error At_Pump Engine_Not_Initialized w)"
  using assms by (simp add: handle_pump_command_def)

lemma pump_command_frame:
  "is_running (snd (handle_pump_command cfg L wd c w)) = is_running w
   \<and> ws_open (snd (handle_pump_command cfg L wd c w)) = ws_open w"
proof (cases "trading_engine w")
  case None
  then show ?thesis
    using send_message_frame[of cfg L wd "Pump_Error (cmd_command_id c) Engine_Not_Initialized"
        "log_error At_Pump Engine_Not_Initialized w"]
    by (simp add: pump_command_without_engine)
next
  case (Some e)
  then show ?thesis
    by (auto simp: pump_command_with_engine send_message_frame split: prod.splits sum.splits dest!: send_message_frameD)
qed

lemma pump_command_engine:
  assumes "trading_engine w = Some e"
  shows "trading_engine (snd (handle_pump_command cfg L wd c w))
           = Some (snd (execute_pump_trade cfg wd c e))"
  using assms
  by (auto simp: pump_command_with_engine send_message_frame split: prod.splits sum.splits dest!: send_message_frameD)

lemma pump_command_reported:
  assumes eng: "trading_engine w = Some e"
    and sent: "fst (send_message cfg L wd (Pump_Result (cmd_command_id c) (fst (execute_pump_trade cfg wd c e)))
                 (w\<lparr>trading_engine := Some (snd (execute_pump_trade cfg wd c e))\<rparr>)) = Inr ()"
  shows "fst (handle_pump_command cfg L wd c w) = Inr ()
       \<and> (\<exists>frame. outbox (snd (handle_pump_command cfg L wd c w))
             = outbox w @ [(Pump_Result (cmd_command_id c) (fst (execute_pump_trade cfg wd c e)), frame)])"
proof -
  let ?m = "Pump_Result (cmd_command_id c) (fst (execute_pump_trade cfg wd c e))"
  let ?w1 = "w\<lparr>trading_engine := Some (snd (execute_pump_trade cfg wd c e))\<rparr>"
  obtain r w2 where s: "send_message cfg L wd ?m ?w1 = (r, w2)" by (cases "send_message cfg L wd ?m ?w1")
  with sent have r: "r = Inr ()" by simp
  then obtain frame where "outbox w2 = outbox ?w1 @ [(?m, frame)]"
    using send_message_outboxD[OF s] by auto
  then show ?thesis using s r eng by (auto simp: pump_command_with_engine)
qed

lemma dispatch_frame_pump:
  "json_loads L raw = Some (Pump_Command c) \<Longrightarrow>
     is_running (snd (process_message cfg L wd raw w)) = is_running w
   \<and> ws_open (snd (process_message cfg L wd raw w)) = ws_open w"
  using process_plain[of L raw "Pump_Command c" cfg wd w]
    pump_command_frame[of cfg L wd c "w\<lparr>messages_received := messages_received w + 1\<rparr>"]
  by (auto simp: process_message_def split: prod.splits sum.splits)


lemma process_message_outbox:
  "outbox (snd (process_message cfg L wd raw w)) = outbox (snd (process_body cfg L wd raw w))"
proof (cases "process_body cfg L wd raw w")
  case (Pair r w1)
  then show ?thesis by (cases r) (simp_all add: process_message_def)
qed

text \<open>
  C5, as amended. A trade command whose validation fails is not fatal and starts no
  trade: \<open>execute_pump_trade\<close> returns a failed result, the engine's gateway calls
  gain no trade, \<open>_handle_pump_command\<close> and \<open>_process_message\<close> leave
  \<open>is_running\<close> and the connection as they were, and \<open>_process_message\<close> returns
  normally. The failure is reported as a \<open>pump_result\<close> message: when that message can
  be sent, it is the one message sent, with the command's \<open>command_id\<close> and the failed
  result that carries the validation error.
\<close>

theorem rejected_trade_reported:
  assumes "trading_engine w = Some e"
    and "error_message (fst (execute_pump_trade cfg wd c e)) = Some err"
    and "is_validation_error err"
  shows "is_running (snd (handle_pump_command cfg L wd c w)) = is_running w
       \<and> ws_open (snd (handle_pump_command cfg L wd c w)) = ws_open w
       \<and> \<not> success (fst (execute_pump_trade cfg wd c e))
       \<and> (\<exists>e'. trading_engine (snd (handle_pump_command cfg L wd c w)) = Some e'
              \<and> filter is_trade_call (gateway_calls e') = filter is_trade_call (gateway_calls e))
       \<and> (fst (send_message cfg L wd (Pump_Result (cmd_command_id c) (fst (execute_pump_trade cfg wd c e)))
                 (w\<lparr>trading_engine := Some (snd (execute_pump_trade cfg wd c e))\<rparr>)) = Inr () \<longrightarrow>
            fst (handle_pump_command cfg L wd c w) = Inr ()
          \<and> (\<exists>frame. outbox (snd (handle_pump_command cfg L wd c w))
                = outbox w @ [(Pump_Result (cmd_command_id c) (fst (execute_pump_trade cfg wd c e)), frame)]))
       \<and> (json_loads L raw = Some (Pump_Command c) \<longrightarrow>
            fst (process_message cfg L wd raw w) = Inr ()
          \<and> is_running (snd (process_message cfg L wd raw w)) = is_running w
          \<and> ws_open (snd (process_message cfg L wd raw w)) = ws_open w)"
proof -
  note eng = assms(1) and rej = assms(2) and val = assms(3)
  have conn: "is_running (snd (handle_pump_command cfg L wd c w)) = is_running w
       \<and> ws_open (snd (handle_pump_command cfg L wd c w)) = ws_open w"
    by (rule pump_command_frame)
  have noexec: "\<not> success (fst (execute_pump_trade cfg wd c e))
       \<and> filter is_trade_call (gateway_calls (snd (execute_pump_trade cfg wd c e)))
           = filter is_trade_call (gateway_calls e)"
    using rej val by (rule execute_validation_error)
  have engine: "\<exists>e'. trading_engine (snd (handle_pump_command cfg L wd c w)) = Some e'
              \<and> filter is_trade_call (gateway_calls e') = filter is_trade_call (gateway_calls e)"
    using pump_command_engine[OF eng, of cfg L wd c] noexec by simp
  have report: "fst (send_message cfg L wd (Pump_Result (cmd_command_id c) (fst (execute_pump_trade cfg wd c e)))
                 (w\<lparr>trading_engine := Some (snd (execute_pump_trade cfg wd c e))\<rparr>)) = Inr () \<longrightarrow>
            fst (handle_pump_command cfg L wd c w) = Inr ()
          \<and> (\<exists>frame. outbox (snd (handle_pump_command cfg L wd c w))
                = outbox w @ [(Pump_Result (cmd_command_id c) (fst (execute_pump_trade cfg wd c e)), frame)])"
    using pump_command_reported[OF eng, of cfg L wd c] by blast
  have boundary: "json_loads L raw = Some (Pump_Command c) \<longrightarrow>
            fst (process_message cfg L wd raw w) = Inr ()
          \<and> is_running (snd (process_message cfg L wd raw w)) = is_running w
          \<and> ws_open (snd (process_message cfg L wd raw w)) = ws_open w"
    using dispatch_frame_pump[of L raw c cfg wd w] process_never_raises[of cfg L wd raw w] by blast
  from conn noexec engine report boundary show ?thesis by blast
qed

lemma toy_pump:
  "json_loads toy_lib ''pump'' = Some (Pump_Command (buy None (1 / 100)))"
  by (simp add: toy_lib_def toy_json_loads_def)

lemma no_token_result:
  "execute_pump_trade cfg wd (buy None a) e = (failed_result wd (buy None a) No_Token_Address, e)"
  by (simp add: execute_no_token buy_def)

lemma connected_worker_sends:
  "send_message default_config toy_lib calm_world m (connected_worker\<lparr>trading_engine := Some e\<rparr>)
     = (Inr (), connected_worker\<lparr>trading_engine := Some e,
                   outbox := [(m, ''{}'')], messages_sent := 1\<rparr>)"
  by (simp add: send_message_def connected_worker_def new_worker_def toy_lib_def default_config_def
        calm_world_def)

theorem rejected_trade_reported_witness:
  "trading_engine connected_worker = Some funded_engine
   \<and> error_message (fst (execute_pump_trade default_config calm_world (buy None (1 / 100)) funded_engine))
       = Some No_Token_Address
   \<and> is_validation_error No_Token_Address
   \<and> json_loads toy_lib ''pump'' = Some (Pump_Command (buy None (1 / 100)))
   \<and> fst (send_message default_config toy_lib calm_world
             (Pump_Result (cmd_command_id (buy None (1 / 100)))
                (fst (execute_pump_trade default_config calm_world (buy None (1 / 100)) funded_engine)))
             (connected_worker\<lparr>trading_engine :=
                Some (snd (execute_pump_trade default_config calm_world (buy None (1 / 100)) funded_engine))\<rparr>))
       = Inr ()
   \<and> fst (handle_pump_command default_config toy_lib calm_world (buy None (1 / 100)) connected_worker) = Inr ()
   \<and> ws_open (snd (process_message default_config toy_lib calm_world ''pump'' connected_worker))
   \<and> is_running (snd (process_message default_config toy_lib calm_world ''pump'' connected_worker))"
proof -
  have eng: "trading_engine connected_worker = Some funded_engine"
    by (simp add: connected_worker_def new_worker_def)
  have rej: "error_message (fst (execute_pump_trade default_config calm_world (buy None (1 / 100)) funded_engine))
       = Some No_Token_Address"
    by (simp add: no_token_result failed_result_def)
  have val: "is_validation_error No_Token_Address" by simp
  have snd_ok: "fst (send_message default_config toy_lib calm_world
             (Pump_Result (cmd_command_id (buy None (1 / 100)))
                (fst (execute_pump_trade default_config calm_world (buy None (1 / 100)) funded_engine)))
             (connected_worker\<lparr>trading_engine :=
                Some (snd (execute_pump_trade default_config calm_world (buy None (1 / 100)) funded_engine))\<rparr>))
       = Inr ()"
    by (simp add: connected_worker_sends)
  have up: "ws_open connected_worker" "is_running connected_worker"
    by (simp_all add: connected_worker_def new_worker_def)
  show ?thesis
    using rejected_trade_reported [OF eng rej val, of toy_lib "''pump''"] eng rej val snd_ok toy_pump up
    by simp
qed

text \<open>
  C5, as stated, fails: for a command without a token address, on an open connection,
  the one message sent is a \<open>pump_result\<close>, not a \<open>pump_error\<close>.
\<close>

theorem rejected_trade_sent_as_pump_result:
  "json_loads toy_lib ''pump'' = Some (Pump_Command (buy None (1 / 100)))
   \<and> trading_engine connected_worker = Some funded_engine
   \<and> error_message (fst (execute_pump_trade default_config calm_world (buy None (1 / 100)) funded_engine))
       = Some No_Token_Address
   \<and> map fst (outbox (snd (process_message default_config toy_lib calm_world ''pump'' connected_worker)))
       = [Pump_Result (Some ''c1'') (failed_result calm_world (buy None (1 / 100)) No_Token_Address)]"
proof -
  let ?w1 = "connected_worker\<lparr>messages_received := messages_received connected_worker + 1\<rparr>"
  have eng: "trading_engine ?w1 = Some funded_engine"
    by (simp add: connected_worker_def new_worker_def)
  have body: "process_body default_config toy_lib calm_world ''pump'' connected_worker
      = handle_pump_command default_config toy_lib calm_world (buy None (1 / 100)) ?w1"
    using process_plain[OF toy_pump, of default_config calm_world connected_worker] by simp
  have "map fst (outbox (snd (handle_pump_command default_config toy_lib calm_world (buy None (1 / 100)) ?w1)))
      = [Pump_Result (Some ''c1'') (failed_result calm_world (buy None (1 / 100)) No_Token_Address)]"
    unfolding pump_command_with_engine[OF eng] no_token_result
    by (simp add: send_message_def connected_worker_def new_worker_def toy_lib_def default_config_def
        calm_world_def buy_def)
  then have "map fst (outbox (snd (process_message default_config toy_lib calm_world ''pump'' connected_worker)))
       = [Pump_Result (Some ''c1'') (failed_result calm_world (buy None (1 / 100)) No_Token_Address)]"
    using body by (simp add: process_message_outbox)
  then show ?thesis using toy_pump eng
    by (simp add: no_token_result failed_result_def connected_worker_def new_worker_def)
qed

section \<open>Handler failures\<close>

lemma pump_command_outbox:
  "outbox (snd (handle_pump_command cfg L wd c w)) = outbox w
   \<or> (\<exists>r frame. outbox (snd (handle_pump_command cfg L wd c w)) = outbox w @ [(r, frame)]
          \<and> answers (Pump_Command c) r)"
proof (cases "trading_engine w")
  case None
  let ?m = "Pump_Error (cmd_command_id c) Engine_Not_Initialized"
  let ?w0 = "log_error At_Pump Engine_Not_Initialized w"
  obtain r w1 where s: "send_message cfg L wd ?m ?w0 = (r, w1)" by (cases "send_message cfg L wd ?m ?w0")
  have "answers (Pump_Command c) ?m" by (simp add: answers_def)
  then show ?thesis
    using send_message_outboxD[OF s] s None by (auto simp: pump_command_without_engine)
next
  case (Some e)
  let ?m = "Pump_Result (cmd_command_id c) (fst (execute_pump_trade cfg wd c e))"
  let ?w0 = "w\<lparr>trading_engine := Some (snd (execute_pump_trade cfg wd c e))\<rparr>"
  obtain r w1 where s: "send_message cfg L wd ?m ?w0 = (r, w1)" by (cases "send_message cfg L wd ?m ?w0")
  have am: "answers (Pump_Command c) ?m" by (simp add: answers_def)
  show ?thesis
  proof (cases r)
    case (Inr u)
    then show ?thesis
      using send_message_outboxD[OF s] s am by (auto simp: pump_command_with_engine[OF Some])
  next
    case (Inl err)
    let ?m2 = "Pump_Error (cmd_command_id c) err"
    obtain r2 w2 where s2: "send_message cfg L wd ?m2 (log_error At_Pump err w1) = (r2, w2)"
      by (cases "send_message cfg L wd ?m2 (log_error At_Pump err w1)")
    have o1: "outbox w1 = outbox w" using send_message_outboxD[OF s] Inl by auto
    have am2: "answers (Pump_Command c) ?m2" by (simp add: answers_def)
    have h: "handle_pump_command cfg L wd c w = (r2, w2)"
      using s s2 Inl by (simp add: pump_command_with_engine[OF Some])
    show ?thesis
      using send_message_outboxD[OF s2] o1 am2 unfolding h by auto
  qed
qed

lemma wallet_assignment_outbox:
  "fst (handle_wallet_assignment cfg L wd i k w) = Inr ()
   \<and> (outbox (snd (handle_wallet_assignment cfg L wd i k w)) = outbox w
      \<or> (\<exists>r frame. outbox (snd (handle_wallet_assignment cfg L wd i k w)) = outbox w @ [(r, frame)]
             \<and> answers (Wallet_Assignment i k) r))"
  by (auto simp: handle_wallet_assignment_def answers_def
           split: option.splits sum.splits prod.splits dest!: send_message_outboxD)

lemma send_answer_outbox:
  "answers m r \<Longrightarrow>
     outbox (snd (send_message cfg L wd r w)) = outbox w
   \<or> (\<exists>r' frame. outbox (snd (send_message cfg L wd r w)) = outbox w @ [(r', frame)] \<and> answers m r')"
  using send_message_outbox[of cfg L wd r w] by auto

lemma initialize_encryption_outbox:
  "outbox (snd (initialize_encryption cfg L w)) = outbox w"
  by (auto simp: initialize_encryption_def split: option.splits sum.splits)

lemma dispatch_answers:
  "outbox (snd (dispatch cfg L wd m w)) = outbox w
   \<or> (\<exists>r frame. outbox (snd (dispatch cfg L wd m w)) = outbox w @ [(r, frame)] \<and> answers m r)"
proof (cases m)
  case (Registration_Success k)
  then show ?thesis
    by (simp add: handle_registration_success_def initialize_encryption_outbox)
next
  case Registration_Error
  then show ?thesis by (simp add: handle_registration_error_def shutdown_def)
next
  case (Pump_Command c)
  then show ?thesis using pump_command_outbox[of cfg L wd c w] by simp
next
  case Heartbeat_Request
  then show ?thesis
    using send_answer_outbox[of Heartbeat_Request Heartbeat_Ack cfg L wd w]
    by (simp add: handle_heartbeat_request_def answers_def)
next
  case (Wallet_Assignment i k)
  then show ?thesis using wallet_assignment_outbox[of cfg L wd i k w] by simp
next
  case Status_Request
  then show ?thesis
    using send_answer_outbox[of Status_Request Worker_Status cfg L wd w]
    by (simp add: handle_status_request_def answers_def)
qed simp_all

lemma boundary_logs:
  assumes "json_loads L raw = Some m" and "\<forall>d. m \<noteq> Encrypted d"
    and "dispatch cfg L wd m (w\<lparr>messages_received := messages_received w + 1\<rparr>) = (Inl err, w')"
  shows "process_message cfg L wd raw w = (Inr (), log_error At_Process err w')"
  using process_plain[OF assms(1,2), of cfg wd w] assms(3) by (simp add: process_message_def)

text \<open>
  C7, as amended. No handler failure leaves \<open>_process_message\<close>: it always returns
  normally. What a handler raises is caught at the dispatch boundary and logged there,
  and the boundary sends nothing; the wallet-assignment handler catches its own failures
  and never raises. Dispatching a message sends at most one message, the handler's own
  reply to it. The one error response is the \<open>pump_error\<close> of the pump-command
  handler, which carries the command's \<open>command_id\<close>: it is sent, for instance, when the
  trading engine is missing.
\<close>

theorem handler_failures_contained:
  "fst (process_message cfg L wd raw w) = Inr ()
   \<and> (json_loads L raw = Some m \<and> (\<forall>d. m \<noteq> Encrypted d)
        \<and> dispatch cfg L wd m (w\<lparr>messages_received := messages_received w + 1\<rparr>) = (Inl err, w') \<longrightarrow>
        process_message cfg L wd raw w = (Inr (), log_error At_Process err w')
      \<and> outbox (snd (process_message cfg L wd raw w)) = outbox w')
   \<and> fst (handle_wallet_assignment cfg L wd i k w) = Inr ()
   \<and> (outbox (snd (dispatch cfg L wd m w)) = outbox w
      \<or> (\<exists>r frame. outbox (snd (dispatch cfg L wd m w)) = outbox w @ [(r, frame)] \<and> answers m r))
   \<and> (trading_engine w = None
        \<and> fst (send_message cfg L wd (Pump_Error (cmd_command_id c) Engine_Not_Initialized)
                 (log_error At_Pump Engine_Not_Initialized w)) = Inr () \<longrightarrow>
        (\<exists>frame. outbox (snd (handle_pump_command cfg L wd c w))
            = outbox w @ [(Pump_Error (cmd_command_id c) Engine_Not_Initialized, frame)]))"
proof -
  have never: "fst (process_message cfg L wd raw w) = Inr ()"
    by (rule process_never_raises)
  have logs: "json_loads L raw = Some m \<and> (\<forall>d. m \<noteq> Encrypted d)
        \<and> dispatch cfg L wd m (w\<lparr>messages_received := messages_received w + 1\<rparr>) = (Inl err, w') \<longrightarrow>
        process_message cfg L wd raw w = (Inr (), log_error At_Process err w')
      \<and> outbox (snd (process_message cfg L wd raw w)) = outbox w'"
    using boundary_logs[of L raw m cfg wd w err w'] by simp
  have wallet: "fst (handle_wallet_assignment cfg L wd i k w) = Inr ()"
    using wallet_assignment_outbox by blast
  have one: "outbox (snd (dispatch cfg L wd m w)) = outbox w
      \<or> (\<exists>r frame. outbox (snd (dispatch cfg L wd m w)) = outbox w @ [(r, frame)] \<and> answers m r)"
    by (rule dispatch_answers)
  have pump: "trading_engine w = None
        \<and> fst (send_message cfg L wd (Pump_Error (cmd_command_id c) Engine_Not_Initialized)
                 (log_error At_Pump Engine_Not_Initialized w)) = Inr () \<longrightarrow>
        (\<exists>frame. outbox (snd (handle_pump_command cfg L wd c w))
            = outbox w @ [(Pump_Error (cmd_command_id c) Engine_Not_Initialized, frame)])"
    using send_message_outbox[of cfg L wd "Pump_Error (cmd_command_id c) Engine_Not_Initialized"
        "log_error At_Pump Engine_Not_Initialized w"]
    by (auto simp: pump_command_without_engine)
  from never logs wallet one pump show ?thesis by blast
qed


lemma toy_bad_key:
  "json_loads toy_lib ''bad_key'' = Some (Registration_Success (Some ''short''))"
  by (simp add: toy_lib_def toy_json_loads_def)

lemma toy_wallet:
  "json_loads toy_lib ''wallet'' = Some (Wallet_Assignment (Some 0) (Some ''c:n:t''))"
  by (simp add: toy_lib_def toy_json_loads_def)

lemma bad_key_dispatch:
  "dispatch default_config toy_lib calm_world (Registration_Success (Some ''short''))
     (connected_worker\<lparr>messages_received := messages_received connected_worker + 1\<rparr>)
   = (Inl Encryption_Init_Failed,
      connected_worker\<lparr>messages_received := messages_received connected_worker + 1,
                       coordinator_public_key := Some ''short''\<rparr>)"
  by (simp add: handle_registration_success_def initialize_encryption_def
        perform_key_exchange_x25519_def connected_worker_def new_worker_def toy_lib_def
        default_config_def key_p_def)

theorem handler_failures_contained_witness:
  "json_loads toy_lib ''bad_key'' = Some (Registration_Success (Some ''short''))
   \<and> (\<forall>d. Registration_Success (Some ''short'') \<noteq> Encrypted d)
   \<and> fst (dispatch default_config toy_lib calm_world (Registration_Success (Some ''short''))
            (connected_worker\<lparr>messages_received := messages_received connected_worker + 1\<rparr>))
       = Inl Encryption_Init_Failed
   \<and> error_log (snd (process_message default_config toy_lib calm_world ''bad_key'' connected_worker))
       = [Log_Error At_Process Encryption_Init_Failed]
   \<and> outbox (snd (process_message default_config toy_lib calm_world ''bad_key'' connected_worker)) = []
   \<and> trading_engine (connected_worker\<lparr>trading_engine := None\<rparr>) = None
   \<and> fst (send_message default_config toy_lib calm_world
             (Pump_Error (cmd_command_id (buy None (1 / 100))) Engine_Not_Initialized)
             (log_error At_Pump Engine_Not_Initialized (connected_worker\<lparr>trading_engine := None\<rparr>)))
       = Inr ()
   \<and> (\<exists>frame. outbox (snd (handle_pump_command default_config toy_lib calm_world (buy None (1 / 100))
                              (connected_worker\<lparr>trading_engine := None\<rparr>)))
         = [(Pump_Error (Some ''c1'') Engine_Not_Initialized, frame)])"
proof -
  let ?w' = "connected_worker\<lparr>messages_received := messages_received connected_worker + 1,
                       coordinator_public_key := Some ''short''\<rparr>"
  let ?w2 = "connected_worker\<lparr>trading_engine := None\<rparr>"
  have ne: "\<forall>d. Registration_Success (Some ''short'') \<noteq> Encrypted d" by simp
  have sent: "fst (send_message default_config toy_lib calm_world
             (Pump_Error (cmd_command_id (buy None (1 / 100))) Engine_Not_Initialized)
             (log_error At_Pump Engine_Not_Initialized ?w2)) = Inr ()"
    by (simp add: send_message_def log_error_def connected_worker_def new_worker_def toy_lib_def
          default_config_def calm_world_def)
  have w: "outbox connected_worker = []" "error_log connected_worker = []"
    by (simp_all add: connected_worker_def new_worker_def)
  note t1 = handler_failures_contained [where cfg = default_config and L = toy_lib and wd = calm_world
      and raw = "''bad_key''" and w = connected_worker and m = "Registration_Success (Some ''short'')"
      and err = Encryption_Init_Failed and w' = ?w']
  note t2 = handler_failures_contained [where cfg = default_config and L = toy_lib and wd = calm_world
      and w = ?w2 and c = "buy None (1 / 100)"]
  have a: "error_log (snd (process_message default_config toy_lib calm_world ''bad_key'' connected_worker))
       = [Log_Error At_Process Encryption_Init_Failed]
     \<and> outbox (snd (process_message default_config toy_lib calm_world ''bad_key'' connected_worker)) = []"
    using t1 toy_bad_key ne bad_key_dispatch w by simp
  have b: "\<exists>frame. outbox (snd (handle_pump_command default_config toy_lib calm_world (buy None (1 / 100)) ?w2))
         = [(Pump_Error (Some ''c1'') Engine_Not_Initialized, frame)]"
    using t2 sent w by (simp add: buy_def)
  show ?thesis using a b toy_bad_key ne sent bad_key_dispatch by simp
qed

text \<open>
  C7, as stated, fails: on an open connection, a \<open>registration_success\<close> whose key
  cannot be used makes its handler raise, and a \<open>wallet_assignment\<close> that cannot be
  decrypted makes its handler fail; both failures are logged and no message is sent.
\<close>

theorem handler_failure_without_response:
  "json_loads toy_lib ''bad_key'' = Some (Registration_Success (Some ''short''))
   \<and> fst (dispatch default_config toy_lib calm_world (Registration_Success (Some ''short''))
            (connected_worker\<lparr>messages_received := messages_received connected_worker + 1\<rparr>))
       = Inl Encryption_Init_Failed
   \<and> ws_open connected_worker
   \<and> outbox (snd (process_message default_config toy_lib calm_world ''bad_key'' connected_worker)) = []
   \<and> json_loads toy_lib ''wallet'' = Some (Wallet_Assignment (Some 0) (Some ''c:n:t''))
   \<and> ws_open keyed_worker
   \<and> error_log (snd (process_message default_config toy_lib calm_world ''wallet'' keyed_worker))
       = [Log_Error At_Wallet Decrypt_Failed]
   \<and> outbox (snd (process_message default_config toy_lib calm_world ''wallet'' keyed_worker)) = []"
proof -
  have ne: "\<forall>d. Registration_Success (Some ''short'') \<noteq> Encrypted d" by simp
  have a: "process_message default_config toy_lib calm_world ''bad_key'' connected_worker
      = (Inr (), log_error At_Process Encryption_Init_Failed
                   (connected_worker\<lparr>messages_received := messages_received connected_worker + 1,
                       coordinator_public_key := Some ''short''\<rparr>))"
    using boundary_logs[OF toy_bad_key ne bad_key_dispatch] .
  have ne2: "\<forall>d. Wallet_Assignment (Some 0) (Some ''c:n:t'') \<noteq> Encrypted d" by simp
  have h: "handle_wallet_assignment default_config toy_lib calm_world (Some 0) (Some ''c:n:t'')
             (keyed_worker\<lparr>messages_received := messages_received keyed_worker + 1\<rparr>)
      = (Inr (), log_error At_Wallet Decrypt_Failed
                   (keyed_worker\<lparr>messages_received := messages_received keyed_worker + 1\<rparr>))"
    by (simp add: handle_wallet_assignment_def decrypt_wallet_key_def decrypt_aes_gcm_def
          keyed_worker_def connected_worker_def new_worker_def toy_lib_def key_a_def)
  have b: "process_message default_config toy_lib calm_world ''wallet'' keyed_worker
      = (Inr (), log_error At_Wallet Decrypt_Failed
                   (keyed_worker\<lparr>messages_received := messages_received keyed_worker + 1\<rparr>))"
    using process_plain[OF toy_wallet ne2, of default_config calm_world keyed_worker] h
    by (simp add: process_message_def)
  have w: "ws_open connected_worker" "outbox connected_worker = []"
    "ws_open keyed_worker" "outbox keyed_worker = []" "error_log keyed_worker = []"
    by (simp_all add: keyed_worker_def connected_worker_def new_worker_def)
  show ?thesis
    unfolding a b using toy_bad_key toy_wallet bad_key_dispatch w by simp
qed

end
